theory Spec2Isabelle
  imports Main
begin

section \<open>JavaScript containers\<close>

text \<open>
  A JavaScript \<open>Map\<close> iterates in insertion order, and several handlers of the program
  depend on that order (\<open>forEach\<close> over \<open>producers\<close>, the roster sent on \<open>init\<close>).
  A map is therefore an association list: \<open>set\<close> on a present key replaces the value
  where the key stands, \<open>set\<close> on a new key appends, \<open>delete\<close> removes the entry.
\<close>

type_synonym ('k, 'v) js_map = "('k \<times> 'v) list"

fun jm_get :: "('k, 'v) js_map \<Rightarrow> 'k \<Rightarrow> 'v option" where
  "jm_get [] k = None"
| "jm_get ((k', v) # m) k = (if k' = k then Some v else jm_get m k)"

fun jm_has :: "('k, 'v) js_map \<Rightarrow> 'k \<Rightarrow> bool" where
  "jm_has [] k = False"
| "jm_has ((k', v) # m) k = (if k' = k then True else jm_has m k)"

fun jm_set :: "'k \<Rightarrow> 'v \<Rightarrow> ('k, 'v) js_map \<Rightarrow> ('k, 'v) js_map" where
  "jm_set k v [] = [(k, v)]"
| "jm_set k v ((k', v') # m) = (if k' = k then (k, v) # m else (k', v') # jm_set k v m)"

fun jm_delete :: "'k \<Rightarrow> ('k, 'v) js_map \<Rightarrow> ('k, 'v) js_map" where
  "jm_delete k [] = []"
| "jm_delete k ((k', v) # m) = (if k' = k then jm_delete k m else (k', v) # jm_delete k m)"

definition jm_size :: "('k, 'v) js_map \<Rightarrow> int" where
  "jm_size m = int (length m)"

section \<open>The server: \<open>server.js\<close>\<close>

subsection \<open>Room state\<close>

type_synonym socket_id = string
type_synonym producer_id = string
type_synonym transport_id = string

text \<open>
  The entry of \<open>RoomState.users\<close>. The field \<open>id\<close> of the source repeats the key
  and is left out.
\<close>

record user_state =
  name :: string
  userIndex :: int
  videoEnabled :: bool
  audioEnabled :: bool

text \<open>
  The entries of \<open>RoomState.transports\<close> and \<open>RoomState.producers\<close>. The handles of the
  media engine (\<open>transport\<close>, \<open>producer\<close>) are outside the room state; closing one has no
  effect on it. A request field that is absent (\<open>undefined\<close>) is the empty string, which
  is falsy like it and equal to no socket id; \<open>presentationIndex\<close> is \<open>None\<close> where the
  property was never written.
\<close>

record transport_data =
  t_socketId :: socket_id
  direction :: string

record producer_data =
  p_socketId :: socket_id
  kind :: string
  source :: string
  presentationIndex :: "int option"

record room_state =
  users :: "(socket_id, user_state) js_map"
  availableIndexes :: "int list"
  transports :: "(transport_id, transport_data) js_map"
  producers :: "(producer_id, producer_data) js_map"
  screenProducers :: "(producer_id, unit) js_map"
  availablePresentationIndexes :: "int list"
  MAX_USERS :: int
  MAX_SCREEN_SHARES :: int

text \<open>
  \<open>resetServerState\<close>, run when the server starts listening: both pools are
  \<open>Array.from({length: n}, (_, i) => i)\<close>, empty for \<open>n \<le> 0\<close>. The limits come
  from \<open>config.js\<close> (\<open>maxUsers\<close>, \<open>maxScreenShares\<close>: integers read from the
  environment, 3 and 2 by default) and are parameters here.
\<close>

definition resetServerState :: "int \<Rightarrow> int \<Rightarrow> room_state" where
  "resetServerState maxUsers maxScreenShares =
     \<lparr> users = [], availableIndexes = map int [0..<nat maxUsers],
       transports = [], producers = [], screenProducers = [],
       availablePresentationIndexes = map int [0..<nat maxScreenShares],
       MAX_USERS = maxUsers, MAX_SCREEN_SHARES = maxScreenShares \<rparr>"

subsection \<open>Helper methods of \<open>RoomState\<close>\<close>

definition isRoomFull :: "room_state \<Rightarrow> bool" where
  "isRoomFull s = (jm_size (users s) \<ge> MAX_USERS s)"

definition getScreenShareCount :: "room_state \<Rightarrow> int" where
  "getScreenShareCount s = jm_size (screenProducers s)"

text \<open>
  \<open>Array.prototype.shift\<close> removes and returns the first element; the source guards
  it with \<open>length > 0\<close> and returns \<open>null\<close> otherwise.
\<close>

definition getNextUserIndex :: "room_state \<Rightarrow> int option \<times> room_state" where
  "getNextUserIndex s =
     (case availableIndexes s of
        [] \<Rightarrow> (None, s)
      | i # rest \<Rightarrow> (Some i, s\<lparr>availableIndexes := rest\<rparr>))"

text \<open>
  \<open>push\<close> then \<open>sort((a, b) => a - b)\<close>: the numeric ascending sort of the whole array.
  The argument is \<open>None\<close> for \<open>null\<close> or \<open>undefined\<close>, which the guard rejects.
\<close>

definition releaseUserIndex :: "int option \<Rightarrow> room_state \<Rightarrow> room_state" where
  "releaseUserIndex idx s =
     (case idx of
        None \<Rightarrow> s
      | Some i \<Rightarrow>
          if i \<ge> 0 \<and> i < MAX_USERS s
          then s\<lparr>availableIndexes := sort (availableIndexes s @ [i])\<rparr>
          else s)"

definition getNextPresentationIndex :: "room_state \<Rightarrow> int option \<times> room_state" where
  "getNextPresentationIndex s =
     (case availablePresentationIndexes s of
        [] \<Rightarrow> (None, s)
      | i # rest \<Rightarrow> (Some i, s\<lparr>availablePresentationIndexes := rest\<rparr>))"

definition releasePresentationIndex :: "int option \<Rightarrow> room_state \<Rightarrow> room_state" where
  "releasePresentationIndex idx s =
     (case idx of
        None \<Rightarrow> s
      | Some i \<Rightarrow>
          if i \<ge> 0 \<and> i < MAX_SCREEN_SHARES s
          then s\<lparr>availablePresentationIndexes := sort (availablePresentationIndexes s @ [i])\<rparr>
          else s)"

definition getUserBySocketId :: "room_state \<Rightarrow> socket_id \<Rightarrow> user_state option" where
  "getUserBySocketId s socketId = jm_get (users s) socketId"

subsection \<open>What the server sends\<close>

text \<open>
  The descriptor of a producer as it travels to clients: the elements of
  \<open>getAllProducers()\<close> and the payloads of \<open>new-producer\<close> and \<open>new-presentation\<close>.
  A property a payload does not carry is \<open>None\<close>, the empty string or \<open>False\<close>.
\<close>

record descriptor =
  d_id :: producer_id
  d_socketId :: socket_id
  d_kind :: string
  d_source :: string
  d_peerName :: string
  d_isScreen :: bool
  d_userIndex :: "int option"
  d_presentationIndex :: "int option"

datatype event =
    RoomFull
  | Init int "(socket_id \<times> user_state) list" "descriptor list"
  | UserJoined socket_id string int bool bool
  | UserUpdated socket_id string bool bool int
  | UserVideoToggled socket_id bool
  | UserAudioToggled socket_id bool
  | UserLeft socket_id
  | NewProducer descriptor
  | NewPresentation descriptor
  | PresentationEnded producer_id "socket_id option"
  | RoomStatus int int int

text \<open>
  Who an emission is addressed to: \<open>io.emit\<close> reaches every connected socket,
  \<open>socket.broadcast.emit\<close> and \<open>io.except(id).emit\<close> every socket but one,
  \<open>socket.emit\<close> one socket.
\<close>

datatype target = ToAll | ToAllExcept socket_id | ToSocket socket_id

type_synonym emission = "target \<times> event"

fun recipients :: "target \<Rightarrow> socket_id list \<Rightarrow> socket_id list" where
  "recipients ToAll connected = connected"
| "recipients (ToAllExcept x) connected = filter (\<lambda>c. c \<noteq> x) connected"
| "recipients (ToSocket x) connected = filter (\<lambda>c. c = x) connected"

definition room_status :: "room_state \<Rightarrow> emission" where
  "room_status s = (ToAll, RoomStatus (jm_size (users s)) (MAX_USERS s) (getScreenShareCount s))"

fun getAllProducers_loop :: "room_state \<Rightarrow> (producer_id, producer_data) js_map \<Rightarrow> descriptor list" where
  "getAllProducers_loop s [] = []"
| "getAllProducers_loop s ((producerId, producerData) # rest) =
     (let userState = jm_get (users s) (p_socketId producerData);
          peerName = (case userState of Some u \<Rightarrow> name u | None \<Rightarrow> ''Unknown'')
      in \<lparr> d_id = producerId, d_socketId = p_socketId producerData,
           d_kind = kind producerData, d_source = source producerData,
           d_peerName = peerName, d_isScreen = (source producerData = ''screen''),
           d_userIndex = Some (case userState of Some u \<Rightarrow> userIndex u | None \<Rightarrow> 0),
           d_presentationIndex = presentationIndex producerData \<rparr>
         # getAllProducers_loop s rest)"

definition getAllProducers :: "room_state \<Rightarrow> descriptor list" where
  "getAllProducers s = getAllProducers_loop s (producers s)"

definition getAllUsers :: "room_state \<Rightarrow> socket_id \<Rightarrow> (socket_id \<times> user_state) list" where
  "getAllUsers s excludeSocketId = filter (\<lambda>(socketId, userState). socketId \<noteq> excludeSocketId) (users s)"

subsection \<open>Removing a participant's resources\<close>

text \<open>
  \<open>removeUserScreenShares\<close>: the \<open>forEach\<close> over \<open>producers\<close> visits the entries in
  insertion order; deleting the entry being visited does not disturb the iteration.
  The loop runs over the entries as they stood at the call and threads the state.
\<close>

fun removeUserScreenShares_loop ::
  "socket_id \<Rightarrow> (producer_id, producer_data) js_map \<Rightarrow> producer_id list \<times> room_state
     \<Rightarrow> producer_id list \<times> room_state" where
  "removeUserScreenShares_loop socketId [] acc = acc"
| "removeUserScreenShares_loop socketId ((producerId, producerData) # rest) (removedProducers, s) =
     (if p_socketId producerData = socketId \<and> source producerData = ''screen''
      then
        let s1 = releasePresentationIndex (presentationIndex producerData) s;
            s2 = s1\<lparr>producers := jm_delete producerId (producers s1)\<rparr>;
            s3 = s2\<lparr>screenProducers := jm_delete producerId (screenProducers s2)\<rparr>
        in removeUserScreenShares_loop socketId rest (removedProducers @ [producerId], s3)
      else removeUserScreenShares_loop socketId rest (removedProducers, s))"

definition removeUserScreenShares :: "socket_id \<Rightarrow> room_state \<Rightarrow> producer_id list \<times> room_state" where
  "removeUserScreenShares socketId s = removeUserScreenShares_loop socketId (producers s) ([], s)"

fun cleanupUser_producers ::
  "socket_id \<Rightarrow> (producer_id, producer_data) js_map \<Rightarrow> room_state \<Rightarrow> room_state" where
  "cleanupUser_producers socketId [] s = s"
| "cleanupUser_producers socketId ((producerId, producerData) # rest) s =
     (if p_socketId producerData = socketId
      then
        let s1 = (if source producerData = ''screen''
                  then
                    let r = releasePresentationIndex (presentationIndex producerData) s
                    in r\<lparr>screenProducers := jm_delete producerId (screenProducers r)\<rparr>
                  else s);
            s2 = s1\<lparr>producers := jm_delete producerId (producers s1)\<rparr>
        in cleanupUser_producers socketId rest s2
      else cleanupUser_producers socketId rest s)"

fun cleanupUser_transports ::
  "socket_id \<Rightarrow> (transport_id, transport_data) js_map \<Rightarrow> room_state \<Rightarrow> room_state" where
  "cleanupUser_transports socketId [] s = s"
| "cleanupUser_transports socketId ((transportId, transportData) # rest) s =
     (if t_socketId transportData = socketId
      then cleanupUser_transports socketId rest (s\<lparr>transports := jm_delete transportId (transports s)\<rparr>)
      else cleanupUser_transports socketId rest s)"

definition cleanupUser :: "socket_id \<Rightarrow> room_state \<Rightarrow> room_state" where
  "cleanupUser socketId s =
     (let userState = jm_get (users s) socketId;
          s1 = s\<lparr>users := jm_delete socketId (users s)\<rparr>;
          s2 = (case userState of
                  Some u \<Rightarrow> releaseUserIndex (Some (userIndex u)) s1
                | None \<Rightarrow> s1);
          s3 = cleanupUser_producers socketId (producers s2) s2
      in cleanupUser_transports socketId (transports s3) s3)"

subsection \<open>Socket handlers\<close>

text \<open>
  \<open>io.on("connection")\<close>. The result is what is emitted, whether the server closed the
  socket, and the room state. The handlers of the socket (also \<open>disconnect\<close>) are
  registered after the two room-full returns, so a rejected socket has none.
\<close>

definition on_connection :: "socket_id \<Rightarrow> room_state \<Rightarrow> emission list \<times> bool \<times> room_state" where
  "on_connection socketId s =
     (if isRoomFull s then ([(ToSocket socketId, RoomFull)], True, s)
      else
        case getNextUserIndex s of
          (None, s1) \<Rightarrow> ([(ToSocket socketId, RoomFull)], True, s1)
        | (Some idx, s1) \<Rightarrow>
            let s2 = s1\<lparr>users := jm_set socketId
                         \<lparr>name = ''Anonymous'', userIndex = idx, videoEnabled = True, audioEnabled = True\<rparr>
                         (users s1)\<rparr>
            in ([(ToSocket socketId, Init idx (getAllUsers s2 socketId) (getAllProducers s2)),
                 (ToAllExcept socketId, UserJoined socketId ''Anonymous'' idx True True),
                 room_status s2],
                False, s2))"

definition set_name :: "socket_id \<Rightarrow> string \<Rightarrow> room_state \<Rightarrow> emission list \<times> room_state" where
  "set_name socketId nm s =
     (case getUserBySocketId s socketId of
        None \<Rightarrow> ([], s)
      | Some userState \<Rightarrow>
          let u = userState\<lparr>name := nm\<rparr>;
              s1 = s\<lparr>users := jm_set socketId u (users s)\<rparr>
          in ([(ToAllExcept socketId, UserUpdated socketId nm (videoEnabled u) (audioEnabled u) (userIndex u)),
               room_status s1], s1))"

definition toggle_video :: "socket_id \<Rightarrow> bool \<Rightarrow> room_state \<Rightarrow> emission list \<times> room_state" where
  "toggle_video socketId enabled s =
     (case getUserBySocketId s socketId of
        None \<Rightarrow> ([], s)
      | Some userState \<Rightarrow>
          ([(ToAllExcept socketId, UserVideoToggled socketId enabled)],
           s\<lparr>users := jm_set socketId (userState\<lparr>videoEnabled := enabled\<rparr>) (users s)\<rparr>))"

definition toggle_audio :: "socket_id \<Rightarrow> bool \<Rightarrow> room_state \<Rightarrow> emission list \<times> room_state" where
  "toggle_audio socketId enabled s =
     (case getUserBySocketId s socketId of
        None \<Rightarrow> ([], s)
      | Some userState \<Rightarrow>
          ([(ToAllExcept socketId, UserAudioToggled socketId enabled)],
           s\<lparr>users := jm_set socketId (userState\<lparr>audioEnabled := enabled\<rparr>) (users s)\<rparr>))"

definition stop_screen_share :: "socket_id \<Rightarrow> room_state \<Rightarrow> emission list \<times> room_state" where
  "stop_screen_share socketId s =
     (case removeUserScreenShares socketId s of
        (removedProducers, s1) \<Rightarrow>
          (map (\<lambda>producerId. (ToAll, PresentationEnded producerId (Some socketId))) removedProducers
             @ [room_status s1], s1))"

text \<open>
  \<open>socket.on("disconnect")\<close>: \<open>cleanupUser\<close> runs first, then \<open>user-left\<close> is
  broadcast, then the loop over \<open>RoomState.producers\<close> as it stands after the cleanup
  emits \<open>presentation-ended\<close> for the screen producers of the socket it still finds.
\<close>

fun disconnect_presentations :: "socket_id \<Rightarrow> (producer_id, producer_data) js_map \<Rightarrow> emission list" where
  "disconnect_presentations socketId [] = []"
| "disconnect_presentations socketId ((producerId, producerData) # rest) =
     (if p_socketId producerData = socketId \<and> source producerData = ''screen''
      then (ToAll, PresentationEnded producerId None) # disconnect_presentations socketId rest
      else disconnect_presentations socketId rest)"

definition on_disconnect :: "socket_id \<Rightarrow> room_state \<Rightarrow> emission list \<times> room_state" where
  "on_disconnect socketId s =
     (let s1 = cleanupUser socketId s
      in ([(ToAllExcept socketId, UserLeft socketId)]
            @ disconnect_presentations socketId (producers s1)
            @ [room_status s1], s1))"

subsection \<open>HTTP endpoints\<close>

text \<open>
  The failures of the endpoints, with the status each is answered with. What the media
  engine returns is a parameter of each endpoint: \<open>Some\<close> id when
  \<open>createWebRtcTransport\<close> or \<open>transport.produce\<close> resolves, \<open>None\<close> when it throws
  (the \<open>catch\<close> answers 500).
\<close>

datatype error = SocketIdRequired | RoomIsFull | TransportNotFound | PresentationFull | InternalError

fun http_status :: "error \<Rightarrow> nat" where
  "http_status SocketIdRequired = 400"
| "http_status RoomIsFull = 403"
| "http_status TransportNotFound = 404"
| "http_status PresentationFull = 403"
| "http_status InternalError = 500"

text \<open>
  \<open>POST /create-transport\<close>. The handler validates, awaits the media engine and then
  records the transport; \<open>create_transport_continue\<close> is the part after the
  \<open>await\<close>, which runs on the room state as it is when the engine answers.
  \<open>create_transport\<close> is the request when nothing else runs in between.
\<close>

definition create_transport_continue ::
  "socket_id \<Rightarrow> string \<Rightarrow> transport_id \<Rightarrow> room_state \<Rightarrow> (error + transport_id) \<times> room_state" where
  "create_transport_continue socketId dir transportId s =
     (Inr transportId,
      s\<lparr>transports := jm_set transportId \<lparr>t_socketId = socketId, direction = dir\<rparr> (transports s)\<rparr>)"

definition create_transport ::
  "socket_id \<Rightarrow> string \<Rightarrow> transport_id option \<Rightarrow> room_state \<Rightarrow> (error + transport_id) \<times> room_state" where
  "create_transport socketId dir engine s =
     (if socketId = [] then (Inl SocketIdRequired, s)
      else if dir = ''send'' \<and> getUserBySocketId s socketId = None \<and> isRoomFull s
      then (Inl RoomIsFull, s)
      else
        case engine of
          None \<Rightarrow> (Inl InternalError, s)
        | Some transportId \<Rightarrow> create_transport_continue socketId dir transportId s)"

record produce_request =
  r_transportId :: transport_id
  r_kind :: string
  r_socketId :: socket_id
  r_source :: string

text \<open>
  \<open>POST /produce\<close>. The result is the answer, what is emitted and the room state.
  The handler looks the transport up, checks the screen-share count and awaits
  \<open>transport.produce\<close>; \<open>produce_continue\<close> is the part after the \<open>await\<close>, which
  runs on the room state as it is when the engine answers and checks the capacity
  again, on the presentation pool. \<open>produce\<close> is the request when nothing else runs
  in between. \<open>source || 'camera'\<close> replaces an absent source by \<open>camera\<close>;
  \<open>socketId && io.except(socketId).emit(...)\<close> emits nothing for an absent socket id.
\<close>

definition produce_continue ::
  "produce_request \<Rightarrow> producer_id \<Rightarrow> room_state
     \<Rightarrow> (error + producer_id) \<times> emission list \<times> room_state" where
  "produce_continue req producerId s =
     (let producerData = \<lparr> p_socketId = r_socketId req, kind = r_kind req,
                           source = (if r_source req = [] then ''camera'' else r_source req),
                           presentationIndex = None \<rparr>;
          userState = getUserBySocketId s (r_socketId req);
          peerName = (case userState of Some u \<Rightarrow> name u | None \<Rightarrow> ''Unknown'');
          userIdx = (case userState of Some u \<Rightarrow> userIndex u | None \<Rightarrow> 0)
      in
        if r_source req = ''screen''
        then
          (case getNextPresentationIndex s of
            (None, s1) \<Rightarrow> (Inl PresentationFull, [], s1)
          | (Some idx, s1) \<Rightarrow>
              let producerData1 = producerData\<lparr>presentationIndex := Some idx\<rparr>;
                  s2 = s1\<lparr>screenProducers := jm_set producerId () (screenProducers s1)\<rparr>;
                  emitted =
                    [(ToAll, NewPresentation
                        \<lparr> d_id = producerId, d_socketId = r_socketId req, d_kind = r_kind req,
                          d_source = [], d_peerName = peerName, d_isScreen = False,
                          d_userIndex = None, d_presentationIndex = Some idx \<rparr>),
                     room_status s2]
              in (Inr producerId, emitted,
                  s2\<lparr>producers := jm_set producerId producerData1 (producers s2)\<rparr>))
        else
          let emitted =
                (if r_socketId req \<noteq> []
                 then [(ToAllExcept (r_socketId req), NewProducer
                         \<lparr> d_id = producerId, d_socketId = r_socketId req, d_kind = r_kind req,
                           d_source = source producerData, d_peerName = peerName,
                           d_isScreen = False,
                           d_userIndex = Some userIdx,
                           d_presentationIndex = None \<rparr>)]
                 else [])
          in (Inr producerId, emitted,
              s\<lparr>producers := jm_set producerId producerData (producers s)\<rparr>))"

definition produce ::
  "produce_request \<Rightarrow> producer_id option \<Rightarrow> room_state
     \<Rightarrow> (error + producer_id) \<times> emission list \<times> room_state" where
  "produce req engine s =
     (case jm_get (transports s) (r_transportId req) of
        None \<Rightarrow> (Inl TransportNotFound, [], s)
      | Some transportData \<Rightarrow>
          if r_source req = ''screen'' \<and> getScreenShareCount s \<ge> MAX_SCREEN_SHARES s
          then (Inl PresentationFull, [], s)
          else
            (case engine of
              None \<Rightarrow> (Inl InternalError, [], s)
            | Some producerId \<Rightarrow> produce_continue req producerId s))"

subsection \<open>Reachable room states\<close>

text \<open>
  The room states the server can be in: it starts from \<open>resetServerState\<close> and every
  step is one socket handler, one endpoint run without interruption, or the part of
  an endpoint after its \<open>await\<close>, run at any later state. The arguments of a step are
  arbitrary, so the set is at least what real traffic reaches.
\<close>

inductive reachable :: "room_state \<Rightarrow> bool" where
  r_start: "reachable (resetServerState maxUsers maxScreenShares)"
| r_connection: "reachable s \<Longrightarrow> reachable (snd (snd (on_connection socketId s)))"
| r_set_name: "reachable s \<Longrightarrow> reachable (snd (set_name socketId nm s))"
| r_toggle_video: "reachable s \<Longrightarrow> reachable (snd (toggle_video socketId enabled s))"
| r_toggle_audio: "reachable s \<Longrightarrow> reachable (snd (toggle_audio socketId enabled s))"
| r_stop_screen_share: "reachable s \<Longrightarrow> reachable (snd (stop_screen_share socketId s))"
| r_disconnect: "reachable s \<Longrightarrow> reachable (snd (on_disconnect socketId s))"
| r_create_transport: "reachable s \<Longrightarrow> reachable (snd (create_transport socketId dir engine s))"
| r_create_transport_continue:
    "reachable s \<Longrightarrow> reachable (snd (create_transport_continue socketId dir transportId s))"
| r_produce: "reachable s \<Longrightarrow> reachable (snd (snd (produce req engine s)))"
| r_produce_continue: "reachable s \<Longrightarrow> reachable (snd (snd (produce_continue req producerId s)))"

section \<open>The client: \<open>public/client.js\<close>\<close>

subsection \<open>Text of numbers\<close>

text \<open>
  Labels are built by string concatenation (\<open>'scr' + userIndex\<close>, \<open>`pr${presentationIndex}`\<close>):
  a number prints in decimal, an absent value as \<open>undefined\<close>.
\<close>

definition digit_char :: "nat \<Rightarrow> char" where
  "digit_char n = ''0123456789'' ! (n mod 10)"

fun show_nat :: "nat \<Rightarrow> string" where
  "show_nat n = (if n < 10 then [digit_char n] else show_nat (n div 10) @ [digit_char (n mod 10)])"

declare show_nat.simps [simp del]

definition js_number :: "int \<Rightarrow> string" where
  "js_number i = (if i < 0 then CHR ''-'' # show_nat (nat (- i)) else show_nat (nat i))"

definition js_value :: "int option \<Rightarrow> string" where
  "js_value v = (case v of None \<Rightarrow> ''undefined'' | Some i \<Rightarrow> js_number i)"

subsection \<open>Client state\<close>

text \<open>
  The entries of the maps \<open>consumers\<close>, \<open>presentations\<close> and \<open>userStates\<close> of
  \<open>VideoConference\<close>. A consumer or a transport of the media engine is known by its id.
\<close>

record consumer_data =
  c_consumer :: string
  c_transport :: transport_id
  c_socketId :: socket_id
  c_kind :: string
  c_isPresentation :: bool

record presentation_record =
  pr_socketId :: socket_id
  pr_peerName :: string
  pr_presentationIndex :: "int option"

record peer_state =
  ps_name :: string
  ps_userIndex :: "int option"
  ps_videoEnabled :: bool
  ps_audioEnabled :: bool

text \<open>
  A render slot: an element of class \<open>video-wrapper\<close>. It has the element id (empty for
  the local wrapper, which has class \<open>self\<close> instead), the title, the label in its
  \<open>.screen-number\<close> child (every wrapper of the page has one), the classes and styles the
  swap gesture sets, and the consumers whose tracks feed its \<open>video\<close> and \<open>audio\<close>
  children. The status indicators of a peer's wrapper are left out.
\<close>

record wrapper =
  w_id :: string
  w_self :: bool
  w_title :: string
  screen_number :: string
  swap_source :: bool
  swap_target :: bool
  cursor :: string
  opacity :: string
  transition :: string
  video_src :: "string option"
  audio_src :: "string option"

record switcher_item =
  sw_id :: string
  sw_name :: string
  sw_type :: string
  sw_screen :: string

text \<open>
  What the signalling server and the media engine answer to one consume attempt:
  \<open>create-transport\<close> fails (or \<open>createRecvTransport\<close> throws); the transport is
  created and the \<open>consume\<close> request fails; the request succeeds and
  \<open>consumerTransport.consume\<close> rejects (the \<open>connect\<close> handshake it triggers failed);
  or the consumer is created, and the flag tells whether building the \<open>MediaStream\<close>
  in \<open>setupMediaElement\<close> succeeds.
\<close>

datatype reply =
    CreateTransportFailed
  | ConsumeRequestFailed transport_id
  | TransportConsumeFailed transport_id
  | Consumed transport_id string bool

text \<open>
  The state of a \<open>VideoConference\<close> with a socket: its fields, the part of the page it
  changes (\<open>#peersContainer\<close>, \<open>#presentationsContainer\<close> once created, the
  visibility of the presentations section, the swap banner and the switcher, the
  \<open>swap-mode\<close> class of the body, the switcher list), and \<open>replies\<close>: the answers the
  coming consume attempts will get, in order. An attempt made when none is left fails
  at its first request.
\<close>

record client_state =
  my_socket_id :: socket_id
  deviceReady :: bool
  consumers :: "(producer_id, consumer_data) js_map"
  consumerTransports :: "(transport_id, unit) js_map"
  userStates :: "(socket_id, peer_state) js_map"
  presentations :: "(producer_id, presentation_record) js_map"
  myUserIndex :: int
  pendingProducers :: "descriptor list"
  pendingPresentations :: "descriptor list"
  isSwapMode :: bool
  swapSource :: "(string \<times> string) option"
  swapTarget :: "(string \<times> string) option"
  peersContainer :: "wrapper list"
  presentationsContainer :: "wrapper list option"
  presentationsSectionShown :: bool
  swapInstructionsShown :: bool
  videoSwitcherShown :: bool
  bodySwapMode :: bool
  videoSwitcherList :: "switcher_item list"
  replies :: "reply list"

subsection \<open>The page\<close>

text \<open>
  \<open>document.querySelectorAll('.video-wrapper')\<close> lists the wrappers in document order:
  the presentations section is inserted right after \<open>#peersContainer\<close>.
\<close>

definition all_wrappers :: "client_state \<Rightarrow> wrapper list" where
  "all_wrappers s =
     peersContainer s @ (case presentationsContainer s of None \<Rightarrow> [] | Some ps \<Rightarrow> ps)"

definition map_wrappers :: "(wrapper \<Rightarrow> wrapper) \<Rightarrow> client_state \<Rightarrow> client_state" where
  "map_wrappers f s =
     s\<lparr>peersContainer := map f (peersContainer s),
       presentationsContainer := map_option (map f) (presentationsContainer s)\<rparr>"

datatype location = InPeers nat | InPresentations nat

fun index_where :: "('a \<Rightarrow> bool) \<Rightarrow> 'a list \<Rightarrow> nat option" where
  "index_where P [] = None"
| "index_where P (x # xs) = (if P x then Some 0 else map_option Suc (index_where P xs))"

definition locate :: "(wrapper \<Rightarrow> bool) \<Rightarrow> client_state \<Rightarrow> location option" where
  "locate P s =
     (case index_where P (peersContainer s) of
        Some i \<Rightarrow> Some (InPeers i)
      | None \<Rightarrow>
          (case presentationsContainer s of
             None \<Rightarrow> None
           | Some ps \<Rightarrow> map_option InPresentations (index_where P ps)))"

fun wrapper_at :: "location \<Rightarrow> client_state \<Rightarrow> wrapper option" where
  "wrapper_at (InPeers i) s =
     (if i < length (peersContainer s) then Some (peersContainer s ! i) else None)"
| "wrapper_at (InPresentations i) s =
     (case presentationsContainer s of
        None \<Rightarrow> None
      | Some ps \<Rightarrow> if i < length ps then Some (ps ! i) else None)"

fun update_wrapper :: "location \<Rightarrow> (wrapper \<Rightarrow> wrapper) \<Rightarrow> client_state \<Rightarrow> client_state" where
  "update_wrapper (InPeers i) f s =
     (if i < length (peersContainer s)
      then s\<lparr>peersContainer := (peersContainer s)[i := f (peersContainer s ! i)]\<rparr>
      else s)"
| "update_wrapper (InPresentations i) f s =
     (case presentationsContainer s of
        None \<Rightarrow> s
      | Some ps \<Rightarrow>
          if i < length ps then s\<lparr>presentationsContainer := Some (ps[i := f (ps ! i)])\<rparr> else s)"

definition findVideoContainerByScreen :: "string \<Rightarrow> client_state \<Rightarrow> location option" where
  "findVideoContainerByScreen screenId s = locate (\<lambda>w. screen_number w = screenId) s"

definition getElementById :: "string \<Rightarrow> client_state \<Rightarrow> location option" where
  "getElementById elementId s = locate (\<lambda>w. w_id w = elementId) s"

subsection \<open>The video switcher and the swap gesture\<close>

definition hideVideoSwitcher :: "client_state \<Rightarrow> client_state" where
  "hideVideoSwitcher s = s\<lparr>videoSwitcherShown := False\<rparr>"

definition showSwapInstructions :: "client_state \<Rightarrow> client_state" where
  "showSwapInstructions s = s\<lparr>swapInstructionsShown := True\<rparr>"

definition hideSwapInstructions :: "client_state \<Rightarrow> client_state" where
  "hideSwapInstructions s = s\<lparr>swapInstructionsShown := False\<rparr>"

text \<open>
  \<open>updateVideoSwitcherList\<close> rebuilds the list: the local camera, the users other than
  this socket, the presentations. The thumbnails are left out.
\<close>

definition updateVideoSwitcherList :: "client_state \<Rightarrow> client_state" where
  "updateVideoSwitcherList s =
     s\<lparr>videoSwitcherList :=
         \<lparr>sw_id = ''local'', sw_name = ''Your Camera'', sw_type = ''camera'',
           sw_screen = ''scr'' @ js_number (myUserIndex s)\<rparr>
         # map (\<lambda>(socketId, user).
                 \<lparr>sw_id = ''user-'' @ socketId, sw_name = ps_name user, sw_type = ''user'',
                   sw_screen = ''scr'' @ js_value (ps_userIndex user)\<rparr>)
             (filter (\<lambda>(socketId, user). socketId \<noteq> my_socket_id s) (userStates s))
         @ map (\<lambda>(producerId, presentation).
                 \<lparr>sw_id = ''presentation-'' @ producerId,
                   sw_name = (if pr_socketId presentation = my_socket_id s then ''Your Screen Share''
                              else pr_peerName presentation @ [CHR 0x27] @ ''s Screen''),
                   sw_type = ''presentation'',
                   sw_screen = ''pr'' @ js_value (pr_presentationIndex presentation)\<rparr>)
             (presentations s)\<rparr>"

definition clearSwapHighlights :: "client_state \<Rightarrow> client_state" where
  "clearSwapHighlights s =
     map_wrappers (\<lambda>w. w\<lparr>swap_source := False, swap_target := False, cursor := [], opacity := []\<rparr>) s"

definition enableSwapModeVisuals :: "client_state \<Rightarrow> client_state" where
  "enableSwapModeVisuals s =
     (map_wrappers
        (\<lambda>w. if swap_source w then w
              else w\<lparr>cursor := ''pointer'', opacity := ''0.9'', transition := ''all 0.3s ease''\<rparr>) s)
       \<lparr>bodySwapMode := True\<rparr>"

definition disableSwapModeVisuals :: "client_state \<Rightarrow> client_state" where
  "disableSwapModeVisuals s =
     (map_wrappers (\<lambda>w. w\<lparr>cursor := [], opacity := []\<rparr>) s)\<lparr>bodySwapMode := False\<rparr>"

definition highlightSwapSource :: "string \<Rightarrow> client_state \<Rightarrow> client_state" where
  "highlightSwapSource screenId s =
     (let s1 = clearSwapHighlights s
      in case findVideoContainerByScreen screenId s1 of
           Some sourceContainer \<Rightarrow>
             update_wrapper sourceContainer (\<lambda>w. w\<lparr>swap_source := True, cursor := ''default''\<rparr>) s1
         | None \<Rightarrow> s1)"

definition highlightSwapTarget :: "string \<Rightarrow> client_state \<Rightarrow> client_state" where
  "highlightSwapTarget screenId s =
     (case findVideoContainerByScreen screenId s of
        Some targetContainer \<Rightarrow> update_wrapper targetContainer (\<lambda>w. w\<lparr>swap_target := True\<rparr>) s
      | None \<Rightarrow> s)"

definition cancelSwap :: "client_state \<Rightarrow> client_state" where
  "cancelSwap s =
     updateVideoSwitcherList (disableSwapModeVisuals (hideSwapInstructions (clearSwapHighlights
       (s\<lparr>swapSource := None, swapTarget := None, isSwapMode := False\<rparr>))))"

definition completeSwap :: "client_state \<Rightarrow> client_state" where
  "completeSwap s =
     updateVideoSwitcherList (disableSwapModeVisuals (hideSwapInstructions (clearSwapHighlights
       (s\<lparr>swapSource := None, swapTarget := None, isSwapMode := False\<rparr>))))"

text \<open>
  \<open>swapVideoContainers\<close>, for two wrappers of one parent: a temporary marker is put
  before the second, the second is moved before the first, the first before the
  marker, and the marker is removed. The children of the parent end with the two
  wrappers exchanged and every other child where it was.
\<close>

definition exchange :: "nat \<Rightarrow> nat \<Rightarrow> 'a list \<Rightarrow> 'a list" where
  "exchange i j xs = (xs[i := xs ! j])[j := xs ! i]"

definition remove_nth :: "nat \<Rightarrow> 'a list \<Rightarrow> 'a list" where
  "remove_nth i xs = take i xs @ drop (Suc i) xs"

fun swapVideoContainers :: "location \<Rightarrow> location \<Rightarrow> client_state \<Rightarrow> client_state" where
  "swapVideoContainers (InPeers i) (InPeers j) s =
     s\<lparr>peersContainer := exchange i j (peersContainer s)\<rparr>"
| "swapVideoContainers (InPresentations i) (InPresentations j) s =
     s\<lparr>presentationsContainer := map_option (exchange i j) (presentationsContainer s)\<rparr>"
| "swapVideoContainers container1 container2 s = s"

text \<open>
  \<open>swapCrossContainers\<close>, for wrappers of different parents: both are removed and each
  is appended to the other's former parent.
\<close>

fun swapCrossContainers :: "location \<Rightarrow> location \<Rightarrow> client_state \<Rightarrow> client_state" where
  "swapCrossContainers (InPeers i) (InPresentations j) s =
     (case presentationsContainer s of
        None \<Rightarrow> s
      | Some ps \<Rightarrow>
          s\<lparr>peersContainer := remove_nth i (peersContainer s) @ [ps ! j],
            presentationsContainer := Some (remove_nth j ps @ [peersContainer s ! i])\<rparr>)"
| "swapCrossContainers (InPresentations i) (InPeers j) s =
     (case presentationsContainer s of
        None \<Rightarrow> s
      | Some ps \<Rightarrow>
          s\<lparr>peersContainer := remove_nth j (peersContainer s) @ [ps ! i],
            presentationsContainer := Some (remove_nth i ps @ [peersContainer s ! j])\<rparr>)"
| "swapCrossContainers container1 container2 s = s"

fun same_parent :: "location \<Rightarrow> location \<Rightarrow> bool" where
  "same_parent (InPeers i) (InPeers j) = True"
| "same_parent (InPresentations i) (InPresentations j) = True"
| "same_parent container1 container2 = False"

definition performSwap :: "client_state \<Rightarrow> client_state" where
  "performSwap s =
     (case (swapSource s, swapTarget s) of
        (Some (sourceId, sourceScreen), Some (targetId, targetScreen)) \<Rightarrow>
          if sourceId = targetId then cancelSwap s
          else
            (case (findVideoContainerByScreen sourceScreen s, findVideoContainerByScreen targetScreen s) of
               (Some sourceContainer, Some targetContainer) \<Rightarrow>
                 completeSwap
                   (if same_parent sourceContainer targetContainer
                    then swapVideoContainers sourceContainer targetContainer s
                    else swapCrossContainers sourceContainer targetContainer s)
             | _ \<Rightarrow> cancelSwap s)
      | _ \<Rightarrow> cancelSwap s)"

definition selectForSwap :: "string \<Rightarrow> string \<Rightarrow> client_state \<Rightarrow> client_state" where
  "selectForSwap sourceId screenId s =
     (if swapSource s = None
      then enableSwapModeVisuals (hideVideoSwitcher (showSwapInstructions (highlightSwapSource screenId
             (s\<lparr>swapSource := Some (sourceId, screenId), isSwapMode := True\<rparr>))))
      else performSwap (highlightSwapTarget screenId (s\<lparr>swapTarget := Some (sourceId, screenId)\<rparr>)))"

text \<open>
  A click on a place of the grid. The listener on the body runs first: it ignores a
  click outside swap mode, outside every wrapper, and on the wrapper that carries
  \<open>swap-source\<close>; otherwise it stops the propagation and calls
  \<open>handleVideoGridClick\<close>, which reads the label and the id of the wrapper and swaps.
  A click it did not stop reaches the listener on the document, which closes an open
  switcher and cancels the swap.
\<close>

definition starts_with :: "string \<Rightarrow> string \<Rightarrow> bool" where
  "starts_with p x = (take (length p) x = p)"

definition handleVideoGridClick :: "wrapper \<Rightarrow> client_state \<Rightarrow> client_state" where
  "handleVideoGridClick videoWrapper s =
     (if \<not> isSwapMode s \<or> swapSource s = None then s
      else
        let screenId = screen_number videoWrapper;
            videoId = (if w_self videoWrapper then Some ''local''
                       else if starts_with ''user-'' (w_id videoWrapper) then Some (w_id videoWrapper)
                       else if starts_with ''presentation-'' (w_id videoWrapper) then Some (w_id videoWrapper)
                       else None)
        in case videoId of
             None \<Rightarrow> s
           | Some v \<Rightarrow> performSwap (highlightSwapTarget screenId (s\<lparr>swapTarget := Some (v, screenId)\<rparr>)))"

definition document_click :: "client_state \<Rightarrow> client_state" where
  "document_click s = (if videoSwitcherShown s then cancelSwap (hideVideoSwitcher s) else s)"

definition grid_click :: "location \<Rightarrow> client_state \<Rightarrow> client_state" where
  "grid_click clicked s =
     (if \<not> isSwapMode s then document_click s
      else
        case wrapper_at clicked s of
          None \<Rightarrow> document_click s
        | Some videoWrapper \<Rightarrow>
            if swap_source videoWrapper then document_click s
            else handleVideoGridClick videoWrapper s)"

subsection \<open>Consuming a producer\<close>

text \<open>
  \<open>setupMediaElement\<close> feeds the \<open>video\<close> or the \<open>audio\<close> child of the wrapper,
  by kind; an exception while it does so is caught there and only logged, which is the
  flag \<open>attached\<close> being false.
\<close>

definition setupMediaElement :: "location \<Rightarrow> string \<Rightarrow> string \<Rightarrow> bool \<Rightarrow> client_state \<Rightarrow> client_state" where
  "setupMediaElement mediaElement consumer knd attached s =
     (if \<not> attached then s
      else if knd = ''video'' then update_wrapper mediaElement (\<lambda>w. w\<lparr>video_src := Some consumer\<rparr>) s
      else if knd = ''audio'' then update_wrapper mediaElement (\<lambda>w. w\<lparr>audio_src := Some consumer\<rparr>) s
      else s)"

definition new_wrapper :: "string \<Rightarrow> string \<Rightarrow> string \<Rightarrow> wrapper" where
  "new_wrapper elementId title label =
     \<lparr> w_id = elementId, w_self = False, w_title = title, screen_number = label,
       swap_source = False, swap_target = False, cursor = [], opacity = [], transition = [],
       video_src = None, audio_src = None \<rparr>"

text \<open>
  The two functions that create a wrapper write the peer's name into it through
  \<open>innerHTML\<close>. A name is modelled as the text of the title, which is what the
  browser makes of a name that holds neither \<open><\<close> nor \<open>&\<close>; what the browser makes
  of markup in a name (further elements, also further wrappers) is not modelled, and a
  statement that counts wrappers takes a name that is \<open>plain_text\<close>.
\<close>

definition plain_text :: "string \<Rightarrow> bool" where
  "plain_text t = (CHR ''<'' \<notin> set t \<and> CHR ''&'' \<notin> set t)"

text \<open>
  \<open>createUserElement\<close>: the wrapper \<open>user-<socketId>\<close> is looked up in the whole
  document and created at the end of \<open>#peersContainer\<close> only when there is none.
\<close>

definition createUserElement ::
  "socket_id \<Rightarrow> string \<Rightarrow> string \<Rightarrow> string \<Rightarrow> int option \<Rightarrow> bool \<Rightarrow> client_state \<Rightarrow> client_state" where
  "createUserElement socketId consumer knd peerName userIdx attached s =
     (let elementId = ''user-'' @ socketId
      in case getElementById elementId s of
           Some mediaElement \<Rightarrow> setupMediaElement mediaElement consumer knd attached s
         | None \<Rightarrow>
             setupMediaElement (InPeers (length (peersContainer s))) consumer knd attached
               (s\<lparr>peersContainer :=
                    peersContainer s @ [new_wrapper elementId peerName (''scr'' @ js_value userIdx)]\<rparr>))"

text \<open>
  \<open>createPresentationElement\<close>: the wrapper \<open>presentation-<producerId>\<close>, created at
  the end of \<open>#presentationsContainer\<close> (itself created on first use) when there is
  none; the section is then shown. The title compares the socket id with
  \<open>consumer.socketId\<close>, a property the consumer of the media engine does not have, so
  the title is always the peer's.
\<close>

definition createPresentationElement ::
  "producer_id \<Rightarrow> string \<Rightarrow> string \<Rightarrow> string \<Rightarrow> int option \<Rightarrow> bool \<Rightarrow> client_state \<Rightarrow> client_state" where
  "createPresentationElement producerId consumer knd peerName presentationIdx attached s =
     (let elementId = ''presentation-'' @ producerId
      in case getElementById elementId s of
           Some mediaElement \<Rightarrow> setupMediaElement mediaElement consumer knd attached s
         | None \<Rightarrow>
             let title = peerName @ [CHR 0x27] @ ''s Screen'';
                 ps = (case presentationsContainer s of None \<Rightarrow> [] | Some ps \<Rightarrow> ps)
             in setupMediaElement (InPresentations (length ps)) consumer knd attached
                  (s\<lparr>presentationsContainer :=
                       Some (ps @ [new_wrapper elementId title (''pr'' @ js_value presentationIdx)]),
                     presentationsSectionShown := True\<rparr>))"

text \<open>
  \<open>consumeProducer\<close>. The two early returns come first; then the \<open>try\<close> block, where
  the receive transport is recorded in \<open>consumerTransports\<close> as soon as it is created,
  and the consumer, the presentation and the render slot only once
  \<open>consumerTransport.consume\<close> has resolved. The \<open>catch\<close> logs and removes nothing.
  \<open>consumeProducer\<close> is an attempt that runs from its call to its end with nothing
  else of the client running while it awaits its answers; the steps of an attempt,
  between which other listeners can run, follow it.
\<close>

definition consumeProducer :: "descriptor \<Rightarrow> bool \<Rightarrow> client_state \<Rightarrow> client_state" where
  "consumeProducer d isPresentation s =
     (if d_socketId d = my_socket_id s \<and> \<not> isPresentation then s
      else if jm_has (consumers s) (d_id d) then s
      else
        case replies s of
          [] \<Rightarrow> s
        | r # rest \<Rightarrow>
            let s0 = s\<lparr>replies := rest\<rparr> in
            (case r of
               CreateTransportFailed \<Rightarrow> s0
             | ConsumeRequestFailed transportId \<Rightarrow>
                 s0\<lparr>consumerTransports := jm_set transportId () (consumerTransports s0)\<rparr>
             | TransportConsumeFailed transportId \<Rightarrow>
                 s0\<lparr>consumerTransports := jm_set transportId () (consumerTransports s0)\<rparr>
             | Consumed transportId consumer attached \<Rightarrow>
                 let s1 = s0\<lparr>consumerTransports := jm_set transportId () (consumerTransports s0)\<rparr>;
                     s2 = s1\<lparr>consumers := jm_set (d_id d)
                                \<lparr>c_consumer = consumer, c_transport = transportId,
                                  c_socketId = d_socketId d, c_kind = d_kind d,
                                  c_isPresentation = isPresentation\<rparr> (consumers s1)\<rparr>
                 in
                   if isPresentation
                   then
                     let s3 = s2\<lparr>presentations := jm_set (d_id d)
                                   \<lparr>pr_socketId = d_socketId d, pr_peerName = d_peerName d,
                                     pr_presentationIndex = d_presentationIndex d\<rparr> (presentations s2)\<rparr>;
                         s4 = createPresentationElement (d_id d) consumer (d_kind d) (d_peerName d)
                                (d_presentationIndex d) attached s3
                     in if videoSwitcherShown s4 then updateVideoSwitcherList s4 else s4
                   else
                     let s3 = (if \<not> jm_has (userStates s2) (d_socketId d)
                               then s2\<lparr>userStates := jm_set (d_socketId d)
                                         \<lparr>ps_name = d_peerName d, ps_userIndex = d_userIndex d,
                                           ps_videoEnabled = True, ps_audioEnabled = True\<rparr>
                                         (userStates s2)\<rparr>
                               else s2)
                     in createUserElement (d_socketId d) consumer (d_kind d) (d_peerName d)
                          (d_userIndex d) attached s3))"

text \<open>
  The steps of one attempt. The function awaits three times: the answer to
  \<open>create-transport\<close>, the answer to \<open>consume\<close>, and \<open>consumerTransport.consume\<close>. The
  listeners \<open>new-producer\<close> and \<open>new-presentation\<close> start an attempt without anything
  waiting for the one before, so a second attempt can start while a first one awaits.
  \<open>consume_start\<close> is the two early returns, evaluated in the state the call is made
  in: the attempt goes on when it holds. \<open>consume_transport_created\<close> is what runs
  when \<open>create-transport\<close> has answered, \<open>consume_consumer_created\<close> what runs when
  \<open>consumerTransport.consume\<close> has resolved, each in the state the client is in by
  then. \<open>consume_answered\<close> puts the steps that follow one answer together.
\<close>

definition consume_start :: "descriptor \<Rightarrow> bool \<Rightarrow> client_state \<Rightarrow> bool" where
  "consume_start d isPresentation s =
     (\<not> (d_socketId d = my_socket_id s \<and> \<not> isPresentation) \<and> \<not> jm_has (consumers s) (d_id d))"

definition consume_transport_created :: "transport_id \<Rightarrow> client_state \<Rightarrow> client_state" where
  "consume_transport_created transportId s =
     s\<lparr>consumerTransports := jm_set transportId () (consumerTransports s)\<rparr>"

definition consume_consumer_created ::
  "descriptor \<Rightarrow> bool \<Rightarrow> transport_id \<Rightarrow> string \<Rightarrow> bool \<Rightarrow> client_state \<Rightarrow> client_state" where
  "consume_consumer_created d isPresentation transportId consumer attached s =
     (let s2 = s\<lparr>consumers := jm_set (d_id d)
                    \<lparr>c_consumer = consumer, c_transport = transportId,
                      c_socketId = d_socketId d, c_kind = d_kind d,
                      c_isPresentation = isPresentation\<rparr> (consumers s)\<rparr>
      in
        if isPresentation
        then
          let s3 = s2\<lparr>presentations := jm_set (d_id d)
                        \<lparr>pr_socketId = d_socketId d, pr_peerName = d_peerName d,
                          pr_presentationIndex = d_presentationIndex d\<rparr> (presentations s2)\<rparr>;
              s4 = createPresentationElement (d_id d) consumer (d_kind d) (d_peerName d)
                     (d_presentationIndex d) attached s3
          in if videoSwitcherShown s4 then updateVideoSwitcherList s4 else s4
        else
          let s3 = (if \<not> jm_has (userStates s2) (d_socketId d)
                    then s2\<lparr>userStates := jm_set (d_socketId d)
                              \<lparr>ps_name = d_peerName d, ps_userIndex = d_userIndex d,
                                ps_videoEnabled = True, ps_audioEnabled = True\<rparr>
                              (userStates s2)\<rparr>
                    else s2)
          in createUserElement (d_socketId d) consumer (d_kind d) (d_peerName d)
               (d_userIndex d) attached s3)"

definition consume_answered :: "descriptor \<Rightarrow> bool \<Rightarrow> reply \<Rightarrow> client_state \<Rightarrow> client_state" where
  "consume_answered d isPresentation r s =
     (case r of
        CreateTransportFailed \<Rightarrow> s
      | ConsumeRequestFailed transportId \<Rightarrow> consume_transport_created transportId s
      | TransportConsumeFailed transportId \<Rightarrow> consume_transport_created transportId s
      | Consumed transportId consumer attached \<Rightarrow>
          consume_consumer_created d isPresentation transportId consumer attached
            (consume_transport_created transportId s))"

definition consumeUserProducer :: "descriptor \<Rightarrow> client_state \<Rightarrow> client_state" where
  "consumeUserProducer d s = consumeProducer d False s"

definition consumePresentation :: "descriptor \<Rightarrow> client_state \<Rightarrow> client_state" where
  "consumePresentation d s = consumeProducer d True s"

subsection \<open>Socket listeners and the pending queues\<close>

definition updateLocalUserIndex :: "int \<Rightarrow> client_state \<Rightarrow> client_state" where
  "updateLocalUserIndex userIdx s =
     (let s1 = s\<lparr>myUserIndex := userIdx\<rparr>
      in case locate w_self s1 of
           Some localIndexElement \<Rightarrow>
             update_wrapper localIndexElement (\<lambda>w. w\<lparr>screen_number := ''scr'' @ js_number userIdx\<rparr>) s1
         | None \<Rightarrow> s1)"

definition addUser :: "socket_id \<Rightarrow> string \<Rightarrow> int \<Rightarrow> bool \<Rightarrow> bool \<Rightarrow> client_state \<Rightarrow> client_state" where
  "addUser socketId nm userIdx videoOn audioOn s =
     (if socketId = my_socket_id s then s
      else
        let s1 = s\<lparr>userStates := jm_set socketId
                     \<lparr>ps_name = nm, ps_userIndex = Some userIdx,
                       ps_videoEnabled = videoOn, ps_audioEnabled = audioOn\<rparr> (userStates s)\<rparr>
        in if videoSwitcherShown s1 then updateVideoSwitcherList s1 else s1)"

fun init_users :: "(socket_id \<times> user_state) list \<Rightarrow> client_state \<Rightarrow> client_state" where
  "init_users [] s = s"
| "init_users ((socketId, user) # rest) s =
     init_users rest (addUser socketId (name user) (userIndex user) (videoEnabled user) (audioEnabled user) s)"

fun init_producers :: "descriptor list \<Rightarrow> client_state \<Rightarrow> client_state" where
  "init_producers [] s = s"
| "init_producers (producer # rest) s =
     init_producers rest
       (if d_isScreen producer
        then s\<lparr>pendingPresentations := pendingPresentations s @ [producer]\<rparr>
        else s\<lparr>pendingProducers := pendingProducers s @ [producer]\<rparr>)"

definition on_init ::
  "int \<Rightarrow> (socket_id \<times> user_state) list \<Rightarrow> descriptor list \<Rightarrow> client_state \<Rightarrow> client_state" where
  "on_init userIdx currentUsers currentProducers s =
     init_producers currentProducers
       (init_users currentUsers (updateLocalUserIndex userIdx (s\<lparr>myUserIndex := userIdx\<rparr>)))"

definition on_new_producer :: "descriptor \<Rightarrow> client_state \<Rightarrow> client_state" where
  "on_new_producer d s =
     (if \<not> deviceReady s then s\<lparr>pendingProducers := pendingProducers s @ [d]\<rparr>
      else consumeUserProducer d s)"

definition on_new_presentation :: "descriptor \<Rightarrow> client_state \<Rightarrow> client_state" where
  "on_new_presentation d s =
     (if \<not> deviceReady s then s\<lparr>pendingPresentations := pendingPresentations s @ [d]\<rparr>
      else consumePresentation d s)"

text \<open>
  The snapshot and the two creation events, as they arrive on the socket.
\<close>

datatype arrival =
    Snapshot int "(socket_id \<times> user_state) list" "descriptor list"
  | ProducerCreated descriptor
  | PresentationCreated descriptor

fun receive :: "arrival \<Rightarrow> client_state \<Rightarrow> client_state" where
  "receive (Snapshot userIdx currentUsers currentProducers) s = on_init userIdx currentUsers currentProducers s"
| "receive (ProducerCreated d) s = on_new_producer d s"
| "receive (PresentationCreated d) s = on_new_presentation d s"

fun receive_all :: "arrival list \<Rightarrow> client_state \<Rightarrow> client_state" where
  "receive_all [] s = s"
| "receive_all (a # rest) s = receive_all rest (receive a s)"

text \<open>
  \<open>processPendingProducers\<close>: the two \<open>for\<close> loops, then both queues are replaced by
  empty arrays. \<open>startConference\<close> sets \<open>deviceReady\<close> and calls it next.
\<close>

fun pending_producers_loop :: "descriptor list \<Rightarrow> client_state \<Rightarrow> client_state" where
  "pending_producers_loop [] s = s"
| "pending_producers_loop (producer # rest) s = pending_producers_loop rest (consumeUserProducer producer s)"

fun pending_presentations_loop :: "descriptor list \<Rightarrow> client_state \<Rightarrow> client_state" where
  "pending_presentations_loop [] s = s"
| "pending_presentations_loop (presentation # rest) s =
     pending_presentations_loop rest (consumePresentation presentation s)"

definition processPendingProducers :: "client_state \<Rightarrow> client_state" where
  "processPendingProducers s =
     (if pendingProducers s = [] \<and> pendingPresentations s = [] then s
      else
        let s1 = pending_producers_loop (pendingProducers s) s;
            s2 = pending_presentations_loop (pendingPresentations s1) s1
        in s2\<lparr>pendingProducers := [], pendingPresentations := []\<rparr>)"

definition device_loaded :: "client_state \<Rightarrow> client_state" where
  "device_loaded s = processPendingProducers (s\<lparr>deviceReady := True\<rparr>)"

section \<open>Properties: what they are stated with\<close>

subsection \<open>Invariants of the room state\<close>

text \<open>
  A pool is in order when it is sorted ascending and holds only indices of its range.
  The user slots are in order when no index is free twice, assigned twice, or free
  and assigned.
\<close>

definition pool_ok :: "int \<Rightarrow> int list \<Rightarrow> bool" where
  "pool_ok mx xs = (sorted xs \<and> list_all (\<lambda>x. 0 \<le> x \<and> x < mx) xs)"

definition user_pool_ok :: "room_state \<Rightarrow> bool" where
  "user_pool_ok s = pool_ok (MAX_USERS s) (availableIndexes s)"

definition presentation_pool_ok :: "room_state \<Rightarrow> bool" where
  "presentation_pool_ok s = pool_ok (MAX_SCREEN_SHARES s) (availablePresentationIndexes s)"

definition pools_ok :: "room_state \<Rightarrow> bool" where
  "pools_ok s = (user_pool_ok s \<and> presentation_pool_ok s)"

definition user_slots_ok :: "room_state \<Rightarrow> bool" where
  "user_slots_ok s = distinct (availableIndexes s @ map (\<lambda>e. userIndex (snd e)) (users s))"

subsection \<open>Observations\<close>

text \<open>The events one connected socket receives out of a list of emissions.\<close>

definition delivered :: "emission list \<Rightarrow> socket_id list \<Rightarrow> socket_id \<Rightarrow> event list" where
  "delivered emitted connected c =
     map snd (filter (\<lambda>e. c \<in> set (recipients (fst e) connected)) emitted)"

text \<open>
  The render slots with a given element id, the element id \<open>consumeProducer\<close> renders a
  descriptor under, and the order of the element ids in the two containers.
\<close>

definition render_slots :: "string \<Rightarrow> client_state \<Rightarrow> wrapper list" where
  "render_slots elementId s = filter (\<lambda>w. w_id w = elementId) (all_wrappers s)"

definition slot_id :: "descriptor \<Rightarrow> bool \<Rightarrow> string" where
  "slot_id d isPresentation =
     (if isPresentation then ''presentation-'' @ d_id d else ''user-'' @ d_socketId d)"

definition slot_order :: "client_state \<Rightarrow> string list \<times> string list option" where
  "slot_order s = (map w_id (peersContainer s), map_option (map w_id) (presentationsContainer s))"



text \<open>
  What an arrival adds to each pending queue while the device is not ready, and a
  sequence of calls of \<open>consumeProducer\<close>, one per element, in order.
\<close>

fun arrival_producers :: "arrival \<Rightarrow> descriptor list" where
  "arrival_producers (Snapshot userIdx currentUsers currentProducers) =
     filter (\<lambda>p. \<not> d_isScreen p) currentProducers"
| "arrival_producers (ProducerCreated d) = [d]"
| "arrival_producers (PresentationCreated d) = []"

fun arrival_presentations :: "arrival \<Rightarrow> descriptor list" where
  "arrival_presentations (Snapshot userIdx currentUsers currentProducers) =
     filter d_isScreen currentProducers"
| "arrival_presentations (ProducerCreated d) = []"
| "arrival_presentations (PresentationCreated d) = [d]"

fun dispatch_all :: "(descriptor \<times> bool) list \<Rightarrow> client_state \<Rightarrow> client_state" where
  "dispatch_all [] s = s"
| "dispatch_all ((d, isPresentation) # rest) s = dispatch_all rest (consumeProducer d isPresentation s)"

subsection \<open>Example runs\<close>

text \<open>
  A room of three users and two screen shares (the defaults of \<open>config.js\<close>):
  after \<open>a\<close> connected; after \<open>a\<close> and \<open>b\<close> connected and \<open>a\<close> created a send
  transport; with \<open>a\<close> sharing its screen; with both presentation slots taken; with
  three users; and with a receive transport registered under a socket id that was
  never admitted.
\<close>

definition room_a :: room_state where
  "room_a = snd (snd (on_connection ''a'' (resetServerState 3 2)))"

definition room_ab :: room_state where
  "room_ab = snd (create_transport ''a'' ''send'' (Some ''t1'') (snd (snd (on_connection ''b'' room_a))))"

definition anonymous :: "int \<Rightarrow> user_state" where
  "anonymous i = \<lparr>name = ''Anonymous'', userIndex = i, videoEnabled = True, audioEnabled = True\<rparr>"

definition sharing_room :: room_state where
  "sharing_room =
     \<lparr> users = [(''a'', anonymous 0), (''b'', anonymous 1)],
       availableIndexes = [2],
       transports = [(''t1'', \<lparr>t_socketId = ''a'', direction = ''send''\<rparr>)],
       producers = [(''p1'', \<lparr>p_socketId = ''a'', kind = ''video'', source = ''screen'',
                              presentationIndex = Some 0\<rparr>)],
       screenProducers = [(''p1'', ())],
       availablePresentationIndexes = [1],
       MAX_USERS = 3, MAX_SCREEN_SHARES = 2 \<rparr>"

definition two_shares :: room_state where
  "two_shares =
     \<lparr> users = [(''a'', anonymous 0), (''b'', anonymous 1)],
       availableIndexes = [2],
       transports = [(''t1'', \<lparr>t_socketId = ''a'', direction = ''send''\<rparr>)],
       producers = [(''p1'', \<lparr>p_socketId = ''a'', kind = ''video'', source = ''screen'',
                              presentationIndex = Some 0\<rparr>),
                    (''p2'', \<lparr>p_socketId = ''a'', kind = ''audio'', source = ''screen'',
                              presentationIndex = Some 1\<rparr>)],
       screenProducers = [(''p1'', ()), (''p2'', ())],
       availablePresentationIndexes = [],
       MAX_USERS = 3, MAX_SCREEN_SHARES = 2 \<rparr>"

definition full_room :: room_state where
  "full_room =
     \<lparr> users = [(''a'', anonymous 0), (''b'', anonymous 1), (''c'', anonymous 2)],
       availableIndexes = [],
       transports = [], producers = [], screenProducers = [],
       availablePresentationIndexes = [0, 1],
       MAX_USERS = 3, MAX_SCREEN_SHARES = 2 \<rparr>"

definition ghost_room :: room_state where
  "ghost_room = snd (create_transport ''ghost'' ''recv'' (Some ''t1'') (resetServerState 3 2))"

definition screen_request :: "socket_id \<Rightarrow> produce_request" where
  "screen_request socketId =
     \<lparr>r_transportId = ''t1'', r_kind = ''video'', r_socketId = socketId, r_source = ''screen''\<rparr>"

definition camera_request :: "socket_id \<Rightarrow> produce_request" where
  "camera_request socketId =
     \<lparr>r_transportId = ''t1'', r_kind = ''video'', r_socketId = socketId, r_source = ''camera''\<rparr>"

text \<open>
  The client as its constructor and the page leave it once the socket \<open>me\<close> is
  connected, and descriptors of a camera and a screen producer.
\<close>

definition local_wrapper :: wrapper where
  "local_wrapper =
     \<lparr> w_id = [], w_self = True, w_title = ''You'', screen_number = ''scr0'',
       swap_source = False, swap_target = False, cursor = [], opacity = [], transition = [],
       video_src = None, audio_src = None \<rparr>"

definition new_client :: "reply list \<Rightarrow> client_state" where
  "new_client rs =
     \<lparr> my_socket_id = ''me'', deviceReady = False, consumers = [], consumerTransports = [],
       userStates = [], presentations = [], myUserIndex = 0,
       pendingProducers = [], pendingPresentations = [],
       isSwapMode = False, swapSource = None, swapTarget = None,
       peersContainer = [local_wrapper], presentationsContainer = None,
       presentationsSectionShown = False, swapInstructionsShown = False,
       videoSwitcherShown = False, bodySwapMode = False, videoSwitcherList = [],
       replies = rs \<rparr>"

definition camera_of :: "producer_id \<Rightarrow> socket_id \<Rightarrow> int \<Rightarrow> descriptor" where
  "camera_of producerId socketId i =
     \<lparr> d_id = producerId, d_socketId = socketId, d_kind = ''video'', d_source = ''camera'',
       d_peerName = ''Peer'', d_isScreen = False, d_userIndex = Some i, d_presentationIndex = None \<rparr>"

definition screen_of :: "producer_id \<Rightarrow> socket_id \<Rightarrow> int \<Rightarrow> bool \<Rightarrow> descriptor" where
  "screen_of producerId socketId i inSnapshot =
     \<lparr> d_id = producerId, d_socketId = socketId, d_kind = ''video'',
       d_source = (if inSnapshot then ''screen'' else []),
       d_peerName = ''Peer'', d_isScreen = inSnapshot,
       d_userIndex = (if inSnapshot then Some 1 else None), d_presentationIndex = Some i \<rparr>"

definition with_peer :: client_state where
  "with_peer = consumeProducer (camera_of ''p2'' ''b'' 1) False (new_client [Consumed ''t9'' ''c1'' True])"

text \<open>
  A snapshot and two creation events as they arrive before the device is ready, the
  answers four consume attempts get, and the client after a camera of \<open>b\<close> was
  consumed and \<open>user-b\<close> selected as the source of a swap.
\<close>

definition buffered_arrivals :: "arrival list" where
  "buffered_arrivals =
     [Snapshot 1 [(''b'', anonymous 0)] [camera_of ''p1'' ''b'' 0, screen_of ''p2'' ''b'' 0 True],
      PresentationCreated (screen_of ''p3'' ''c'' 1 False),
      ProducerCreated (camera_of ''p4'' ''c'' 2)]"

definition four_replies :: "reply list" where
  "four_replies =
     [Consumed ''t1'' ''c1'' True, Consumed ''t2'' ''c2'' True,
      Consumed ''t3'' ''c3'' True, Consumed ''t4'' ''c4'' True]"

definition source_selected :: client_state where
  "source_selected = selectForSwap ''user-b'' ''scr1'' with_peer"

section \<open>Lemmas about the server\<close>

subsection \<open>Maps and pools\<close>

lemma jm_delete_filter: "jm_delete k m = filter (\<lambda>e. fst e \<noteq> k) m"
  by (induction m) auto

lemma jm_get_None_iff: "jm_get m k = None \<longleftrightarrow> k \<notin> fst ` set m"
  by (induction m) (auto split: if_splits)

lemma jm_has_iff: "jm_has m k \<longleftrightarrow> k \<in> fst ` set m"
  by (induction m) auto

lemma jm_get_Some_mem: "jm_get m k = Some v \<Longrightarrow> (k, v) \<in> set m"
  by (induction m) (auto split: if_splits)

lemma jm_delete_absent: "jm_get m k = None \<Longrightarrow> jm_delete k m = m"
  by (induction m) (auto split: if_splits)

lemma jm_get_delete: "jm_get (jm_delete k m) k = None"
  by (induction m) auto

lemma releaseUserIndex_frame [simp]:
  "users (releaseUserIndex idx s) = users s"
  "transports (releaseUserIndex idx s) = transports s"
  "producers (releaseUserIndex idx s) = producers s"
  "screenProducers (releaseUserIndex idx s) = screenProducers s"
  "availablePresentationIndexes (releaseUserIndex idx s) = availablePresentationIndexes s"
  "MAX_USERS (releaseUserIndex idx s) = MAX_USERS s"
  "MAX_SCREEN_SHARES (releaseUserIndex idx s) = MAX_SCREEN_SHARES s"
  by (auto simp: releaseUserIndex_def split: option.splits)

lemma releasePresentationIndex_frame [simp]:
  "users (releasePresentationIndex idx s) = users s"
  "transports (releasePresentationIndex idx s) = transports s"
  "producers (releasePresentationIndex idx s) = producers s"
  "screenProducers (releasePresentationIndex idx s) = screenProducers s"
  "availableIndexes (releasePresentationIndex idx s) = availableIndexes s"
  "MAX_USERS (releasePresentationIndex idx s) = MAX_USERS s"
  "MAX_SCREEN_SHARES (releasePresentationIndex idx s) = MAX_SCREEN_SHARES s"
  by (auto simp: releasePresentationIndex_def split: option.splits)

lemma pool_ok_release_user:
  "pool_ok (MAX_USERS s) (availableIndexes s) \<Longrightarrow>
   pool_ok (MAX_USERS s) (availableIndexes (releaseUserIndex idx s))"
  by (auto simp: pool_ok_def releaseUserIndex_def list_all_iff split: option.splits)

lemma pool_ok_release_presentation:
  "pool_ok (MAX_SCREEN_SHARES s) (availablePresentationIndexes s) \<Longrightarrow>
   pool_ok (MAX_SCREEN_SHARES s) (availablePresentationIndexes (releasePresentationIndex idx s))"
  by (auto simp: pool_ok_def releasePresentationIndex_def list_all_iff split: option.splits)

lemma pool_ok_tl: "pool_ok mx (x # xs) \<Longrightarrow> pool_ok mx xs"
  by (auto simp: pool_ok_def)

lemma pool_ok_init: "pool_ok n (map int [0..<nat n])"
  by (auto simp: pool_ok_def list_all_iff sorted_map intro!: sorted_wrt_mono_rel[of _ "(<)"] )

lemma cleanupUser_producers_frame [simp]:
  "users (cleanupUser_producers sid ps s) = users s"
  "availableIndexes (cleanupUser_producers sid ps s) = availableIndexes s"
  "transports (cleanupUser_producers sid ps s) = transports s"
  "MAX_USERS (cleanupUser_producers sid ps s) = MAX_USERS s"
  "MAX_SCREEN_SHARES (cleanupUser_producers sid ps s) = MAX_SCREEN_SHARES s"
  by (induction sid ps s rule: cleanupUser_producers.induct; simp add: Let_def)+

lemma cleanupUser_transports_frame [simp]:
  "users (cleanupUser_transports sid ts s) = users s"
  "availableIndexes (cleanupUser_transports sid ts s) = availableIndexes s"
  "producers (cleanupUser_transports sid ts s) = producers s"
  "screenProducers (cleanupUser_transports sid ts s) = screenProducers s"
  "availablePresentationIndexes (cleanupUser_transports sid ts s) = availablePresentationIndexes s"
  "MAX_USERS (cleanupUser_transports sid ts s) = MAX_USERS s"
  "MAX_SCREEN_SHARES (cleanupUser_transports sid ts s) = MAX_SCREEN_SHARES s"
  by (induction sid ts s rule: cleanupUser_transports.induct; simp)+

lemma removeUserScreenShares_loop_frame [simp]:
  "users (snd (removeUserScreenShares_loop sid ps acc)) = users (snd acc)"
  "availableIndexes (snd (removeUserScreenShares_loop sid ps acc)) = availableIndexes (snd acc)"
  "transports (snd (removeUserScreenShares_loop sid ps acc)) = transports (snd acc)"
  "MAX_USERS (snd (removeUserScreenShares_loop sid ps acc)) = MAX_USERS (snd acc)"
  "MAX_SCREEN_SHARES (snd (removeUserScreenShares_loop sid ps acc)) = MAX_SCREEN_SHARES (snd acc)"
  by (induction sid ps acc rule: removeUserScreenShares_loop.induct; simp add: Let_def)+

lemma user_pool_ok_upd [simp]:
  "user_pool_ok (s\<lparr>users := u\<rparr>) = user_pool_ok s"
  "user_pool_ok (s\<lparr>producers := p\<rparr>) = user_pool_ok s"
  "user_pool_ok (s\<lparr>screenProducers := sp\<rparr>) = user_pool_ok s"
  "user_pool_ok (s\<lparr>transports := t\<rparr>) = user_pool_ok s"
  "user_pool_ok (s\<lparr>availablePresentationIndexes := a\<rparr>) = user_pool_ok s"
  "user_pool_ok (releasePresentationIndex idx s) = user_pool_ok s"
  by (simp_all add: user_pool_ok_def)

lemma presentation_pool_ok_upd [simp]:
  "presentation_pool_ok (s\<lparr>users := u\<rparr>) = presentation_pool_ok s"
  "presentation_pool_ok (s\<lparr>producers := p\<rparr>) = presentation_pool_ok s"
  "presentation_pool_ok (s\<lparr>screenProducers := sp\<rparr>) = presentation_pool_ok s"
  "presentation_pool_ok (s\<lparr>transports := t\<rparr>) = presentation_pool_ok s"
  "presentation_pool_ok (s\<lparr>availableIndexes := a\<rparr>) = presentation_pool_ok s"
  "presentation_pool_ok (releaseUserIndex idx s) = presentation_pool_ok s"
  by (simp_all add: presentation_pool_ok_def)

lemma user_pool_ok_release [simp]:
  "user_pool_ok s \<Longrightarrow> user_pool_ok (releaseUserIndex idx s)"
  by (auto simp: user_pool_ok_def pool_ok_def releaseUserIndex_def list_all_iff split: option.splits)

lemma presentation_pool_ok_release [simp]:
  "presentation_pool_ok s \<Longrightarrow> presentation_pool_ok (releasePresentationIndex idx s)"
  by (auto simp: presentation_pool_ok_def pool_ok_def releasePresentationIndex_def list_all_iff
      split: option.splits)

lemma cleanupUser_producers_pools:
  "presentation_pool_ok s \<Longrightarrow> presentation_pool_ok (cleanupUser_producers sid ps s)"
  "user_pool_ok (cleanupUser_producers sid ps s) = user_pool_ok s"
  by (induction sid ps s rule: cleanupUser_producers.induct; simp add: Let_def)+

lemma cleanupUser_transports_pools:
  "presentation_pool_ok (cleanupUser_transports sid ts s) = presentation_pool_ok s"
  "user_pool_ok (cleanupUser_transports sid ts s) = user_pool_ok s"
  by (induction sid ts s rule: cleanupUser_transports.induct; simp)+

lemma removeUserScreenShares_loop_pools:
  "presentation_pool_ok (snd acc) \<Longrightarrow>
     presentation_pool_ok (snd (removeUserScreenShares_loop sid ps acc))"
  "user_pool_ok (snd (removeUserScreenShares_loop sid ps acc)) = user_pool_ok (snd acc)"
  by (induction sid ps acc rule: removeUserScreenShares_loop.induct; simp add: Let_def)+

lemma pools_ok_cleanupUser: "pools_ok s \<Longrightarrow> pools_ok (cleanupUser sid s)"
  by (simp add: pools_ok_def cleanupUser_def Let_def cleanupUser_producers_pools
      cleanupUser_transports_pools split: option.splits)

lemma pools_ok_on_connection: "pools_ok s \<Longrightarrow> pools_ok (snd (snd (on_connection sid s)))"
  by (auto simp: pools_ok_def on_connection_def getNextUserIndex_def Let_def
      user_pool_ok_def presentation_pool_ok_def split: list.splits dest: pool_ok_tl)

lemma pools_ok_produce_continue:
  "pools_ok s \<Longrightarrow> pools_ok (snd (snd (produce_continue req producerId s)))"
  by (auto simp: pools_ok_def produce_continue_def getNextPresentationIndex_def Let_def
      user_pool_ok_def presentation_pool_ok_def split: list.splits option.splits dest: pool_ok_tl)

lemma pools_ok_produce: "pools_ok s \<Longrightarrow> pools_ok (snd (snd (produce req engine s)))"
  by (auto simp: pools_ok_def produce_def produce_continue_def getNextPresentationIndex_def Let_def
      user_pool_ok_def presentation_pool_ok_def split: list.splits option.splits dest: pool_ok_tl)

lemma pools_ok_stop: "pools_ok s \<Longrightarrow> pools_ok (snd (stop_screen_share sid s))"
  using removeUserScreenShares_loop_pools [where acc = "([], s)" and sid = sid and ps = "producers s"]
  by (auto simp: pools_ok_def stop_screen_share_def removeUserScreenShares_def split: prod.splits)

lemma reachable_pools_ok: "reachable s \<Longrightarrow> pools_ok s"
proof (induction rule: reachable.induct)
  case (r_start maxUsers maxScreenShares)
  then show ?case
    by (simp add: pools_ok_def user_pool_ok_def presentation_pool_ok_def resetServerState_def pool_ok_init)
next
  case (r_connection s socketId)
  then show ?case by (simp add: pools_ok_on_connection)
next
  case (r_set_name s socketId nm)
  then show ?case by (auto simp: pools_ok_def set_name_def Let_def split: option.splits)
next
  case (r_toggle_video s socketId enabled)
  then show ?case by (auto simp: pools_ok_def toggle_video_def split: option.splits)
next
  case (r_toggle_audio s socketId enabled)
  then show ?case by (auto simp: pools_ok_def toggle_audio_def split: option.splits)
next
  case (r_stop_screen_share s socketId)
  then show ?case by (simp add: pools_ok_stop)
next
  case (r_disconnect s socketId)
  then show ?case by (simp add: on_disconnect_def Let_def pools_ok_cleanupUser)
next
  case (r_create_transport s socketId dir engine)
  then show ?case
    by (auto simp: pools_ok_def create_transport_def create_transport_continue_def split: option.splits)
next
  case (r_create_transport_continue s socketId dir transportId)
  then show ?case by (simp add: pools_ok_def create_transport_continue_def)
next
  case (r_produce s req engine)
  then show ?case by (simp add: pools_ok_produce)
next
  case (r_produce_continue s req producerId)
  then show ?case by (simp add: pools_ok_produce_continue)
qed

lemma sorted_hd_Min: "sorted xs \<Longrightarrow> xs \<noteq> [] \<Longrightarrow> hd xs = Min (set xs)"
  by (cases xs) (auto intro!: Min_eqI [symmetric])

lemma hd_sort_append_min:
  fixes i :: int
  assumes "\<forall>x\<in>set xs. i \<le> x"
  shows "hd (sort (xs @ [i])) = i"
proof -
  have "sort (xs @ [i]) \<noteq> []" by (metis length_sort length_0_conv snoc_eq_iff_butlast)
  then have "hd (sort (xs @ [i])) = Min (set (sort (xs @ [i])))"
    by (intro sorted_hd_Min) simp_all
  also have "\<dots> = i" using assms by (auto intro!: Min_eqI)
  finally show ?thesis .
qed

subsection \<open>What \<open>cleanupUser\<close> leaves\<close>

lemma cleanupUser_producers_producers:
  "producers (cleanupUser_producers sid ps s) =
     filter (\<lambda>e. fst e \<notin> set (map fst (filter (\<lambda>e. p_socketId (snd e) = sid) ps))) (producers s)"
proof (induction sid ps s rule: cleanupUser_producers.induct)
  case (1 socketId s)
  then show ?case by simp
next
  case (2 socketId producerId producerData rest s)
  show ?case
  proof (cases "p_socketId producerData = socketId")
    case True
    show ?thesis
      using True "2.IH"(1) [OF True refl refl]
      by (simp add: Let_def jm_delete_filter)
  next
    case False
    show ?thesis using False "2.IH"(2) [OF False] by simp
  qed
qed

lemma cleanupUser_transports_transports:
  "transports (cleanupUser_transports sid ts s) =
     filter (\<lambda>e. fst e \<notin> set (map fst (filter (\<lambda>e. t_socketId (snd e) = sid) ts))) (transports s)"
proof (induction sid ts s rule: cleanupUser_transports.induct)
  case (1 socketId s)
  then show ?case by simp
next
  case (2 socketId transportId transportData rest s)
  show ?case
  proof (cases "t_socketId transportData = socketId")
    case True
    show ?thesis
      using True "2.IH"(1) [OF True]
      by (simp add: jm_delete_filter)
  next
    case False
    show ?thesis using False "2.IH"(2) [OF False] by simp
  qed
qed

lemma disconnect_presentations_none:
  "list_all (\<lambda>e. p_socketId (snd e) \<noteq> sid) ps \<Longrightarrow> disconnect_presentations sid ps = []"
  by (induction sid ps rule: disconnect_presentations.induct) auto

lemma cleanupUser_producers_none:
  "list_all (\<lambda>e. p_socketId (snd e) \<noteq> sid) ps \<Longrightarrow> cleanupUser_producers sid ps s = s"
  by (induction sid ps s rule: cleanupUser_producers.induct) auto

lemma cleanupUser_transports_none:
  "list_all (\<lambda>e. t_socketId (snd e) \<noteq> sid) ts \<Longrightarrow> cleanupUser_transports sid ts s = s"
  by (induction sid ts s rule: cleanupUser_transports.induct) auto

lemma cleanupUser_users: "users (cleanupUser sid s) = jm_delete sid (users s)"
  by (simp add: cleanupUser_def Let_def split: option.splits)

lemma cleanupUser_no_producers_left:
  "list_all (\<lambda>e. p_socketId (snd e) \<noteq> sid) (producers (cleanupUser sid s))"
  by (force simp: cleanupUser_def Let_def cleanupUser_producers_producers list_all_iff
      split: option.splits)

lemma cleanupUser_no_transports_left:
  "list_all (\<lambda>e. t_socketId (snd e) \<noteq> sid) (transports (cleanupUser sid s))"
  by (force simp: cleanupUser_def Let_def cleanupUser_transports_transports list_all_iff
      split: option.splits)

lemma cleanupUser_noop:
  assumes "jm_get (users s) sid = None"
    and "list_all (\<lambda>e. p_socketId (snd e) \<noteq> sid) (producers s)"
    and "list_all (\<lambda>e. t_socketId (snd e) \<noteq> sid) (transports s)"
  shows "cleanupUser sid s = s"
  using assms
  by (simp add: cleanupUser_def Let_def jm_delete_absent cleanupUser_producers_none
      cleanupUser_transports_none)

lemma cleanupUser_idem: "cleanupUser sid (cleanupUser sid s) = cleanupUser sid s"
  by (rule cleanupUser_noop)
     (simp_all add: cleanupUser_users jm_get_delete cleanupUser_no_producers_left
        cleanupUser_no_transports_left)

lemma disconnect_never_announces_presentation_end:
  "disconnect_presentations sid (producers (cleanupUser sid s)) = []"
  by (rule disconnect_presentations_none) (rule cleanupUser_no_producers_left)

subsection \<open>User slots stay distinct\<close>

lemma user_slots_ok_upd [simp]:
  "user_slots_ok (s\<lparr>producers := p\<rparr>) = user_slots_ok s"
  "user_slots_ok (s\<lparr>screenProducers := sp\<rparr>) = user_slots_ok s"
  "user_slots_ok (s\<lparr>transports := t\<rparr>) = user_slots_ok s"
  "user_slots_ok (s\<lparr>availablePresentationIndexes := a\<rparr>) = user_slots_ok s"
  "user_slots_ok (releasePresentationIndex idx s) = user_slots_ok s"
  by (simp_all add: user_slots_ok_def)

lemma user_slots_ok_loops [simp]:
  "user_slots_ok (cleanupUser_producers sid ps s) = user_slots_ok s"
  "user_slots_ok (cleanupUser_transports sid ts s) = user_slots_ok s"
  "user_slots_ok (snd (removeUserScreenShares_loop sid ps acc)) = user_slots_ok (snd acc)"
  by (simp_all add: user_slots_ok_def)

lemma jm_set_mem: "e \<in> set (jm_set k v m) \<Longrightarrow> e = (k, v) \<or> e \<in> set m"
  by (induction m) (auto split: if_splits)

lemma jm_set_indexes_subset:
  "set (map (\<lambda>e. f (snd e)) (jm_set k v m)) \<subseteq> insert (f v) (set (map (\<lambda>e. f (snd e)) m))"
  using jm_set_mem [of _ k v m] by fastforce

lemma jm_set_indexes_distinct:
  "distinct (map (\<lambda>e. f (snd e)) m) \<Longrightarrow> f v \<notin> set (map (\<lambda>e. f (snd e)) m)
   \<Longrightarrow> distinct (map (\<lambda>e. f (snd e)) (jm_set k v m))"
proof (induction m)
  case Nil
  then show ?case by simp
next
  case (Cons a m)
  then show ?case using jm_set_indexes_subset [of f k v m] by (cases a) auto
qed

lemma jm_set_same_index:
  "jm_get m k = Some u \<Longrightarrow> f u' = f u \<Longrightarrow>
   map (\<lambda>e. f (snd e)) (jm_set k u' m) = map (\<lambda>e. f (snd e)) m"
  by (induction m) (auto split: if_splits)

lemma user_slots_ok_on_connection:
  assumes "user_slots_ok s"
  shows "user_slots_ok (snd (snd (on_connection sid s)))"
proof (cases "isRoomFull s \<or> availableIndexes s = []")
  case True
  then show ?thesis using assms by (auto simp: on_connection_def getNextUserIndex_def)
next
  case False
  then obtain i rest where pool: "availableIndexes s = i # rest" by (cases "availableIndexes s") auto
  let ?u = "\<lparr>name = ''Anonymous'', userIndex = i, videoEnabled = True, audioEnabled = True\<rparr>"
  from assms pool have d: "distinct rest" "i \<notin> set rest"
    "distinct (map (\<lambda>e. userIndex (snd e)) (users s))"
    "i \<notin> set (map (\<lambda>e. userIndex (snd e)) (users s))"
    "set rest \<inter> set (map (\<lambda>e. userIndex (snd e)) (users s)) = {}"
    by (auto simp: user_slots_ok_def)
  have 1: "distinct (map (\<lambda>e. userIndex (snd e)) (jm_set sid ?u (users s)))"
    using d by (intro jm_set_indexes_distinct) simp_all
  have 2: "set (map (\<lambda>e. userIndex (snd e)) (jm_set sid ?u (users s)))
             \<subseteq> insert i (set (map (\<lambda>e. userIndex (snd e)) (users s)))"
    using jm_set_indexes_subset [of userIndex sid ?u "users s"] by simp
  have "distinct (rest @ map (\<lambda>e. userIndex (snd e)) (jm_set sid ?u (users s)))"
    using d 1 2 by (simp only: distinct_append) blast
  then show ?thesis using False pool
    by (simp add: on_connection_def getNextUserIndex_def Let_def user_slots_ok_def)
qed

lemma user_slots_ok_cleanupUser:
  assumes "user_slots_ok s"
  shows "user_slots_ok (cleanupUser sid s)"
proof (cases "jm_get (users s) sid")
  case None
  then show ?thesis using assms
    by (simp add: cleanupUser_def Let_def jm_delete_absent user_slots_ok_def)
next
  case (Some u)
  let ?f = "\<lambda>e. userIndex (snd e)"
  let ?s1 = "s\<lparr>users := jm_delete sid (users s)\<rparr>"
  from Some have mem: "(sid, u) \<in> set (users s)" by (rule jm_get_Some_mem)
  from assms have d: "distinct (availableIndexes s)" "distinct (map ?f (users s))"
    "set (availableIndexes s) \<inter> set (map ?f (users s)) = {}"
    by (auto simp: user_slots_ok_def)
  have inj: "inj_on ?f (set (users s))" using d(2) by (simp add: distinct_map)
  have notin: "userIndex u \<notin> set (map ?f (jm_delete sid (users s)))"
  proof
    assume "userIndex u \<in> set (map ?f (jm_delete sid (users s)))"
    then obtain e where e: "e \<in> set (users s)" "fst e \<noteq> sid" "?f e = userIndex u"
      by (auto simp: jm_delete_filter)
    then have "?f e = ?f (sid, u)" by simp
    then have "e = (sid, u)" using inj_onD [OF inj _ e(1) mem] by blast
    with e show False by simp
  qed
  have notin_pool: "userIndex u \<notin> set (availableIndexes s)" using d(3) mem by force
  have dd: "distinct (map ?f (jm_delete sid (users s)))"
    using d(2) by (simp add: jm_delete_filter distinct_map_filter)
  have sub: "set (map ?f (jm_delete sid (users s))) \<subseteq> set (map ?f (users s))"
    by (auto simp: jm_delete_filter)
  have disj: "set (availableIndexes s) \<inter> set (map ?f (jm_delete sid (users s))) = {}"
    using d(3) sub by blast
  have "distinct (sort (availableIndexes s @ [userIndex u]) @ map ?f (jm_delete sid (users s)))"
    using d(1) dd disj notin notin_pool by simp
  moreover have "distinct (availableIndexes s @ map ?f (jm_delete sid (users s)))"
    using d(1) dd disj by simp
  ultimately have "user_slots_ok (releaseUserIndex (Some (userIndex u)) ?s1)"
    by (simp add: user_slots_ok_def releaseUserIndex_def)
  then show ?thesis using Some by (simp add: cleanupUser_def Let_def)
qed

lemma user_slots_ok_user_update:
  "jm_get (users s) sid = Some u \<Longrightarrow> userIndex u' = userIndex u \<Longrightarrow>
   user_slots_ok (s\<lparr>users := jm_set sid u' (users s)\<rparr>) = user_slots_ok s"
  using jm_set_same_index [of "users s" sid u userIndex u']
  by (simp add: user_slots_ok_def)

lemma reachable_user_slots_ok: "reachable s \<Longrightarrow> user_slots_ok s"
proof (induction rule: reachable.induct)
  case (r_start maxUsers maxScreenShares)
  then show ?case by (simp add: user_slots_ok_def resetServerState_def distinct_map)
next
  case (r_connection s socketId)
  then show ?case by (simp add: user_slots_ok_on_connection)
next
  case (r_set_name s socketId nm)
  then show ?case by (simp add: user_slots_ok_user_update set_name_def Let_def getUserBySocketId_def
        split: option.splits)
next
  case (r_toggle_video s socketId enabled)
  then show ?case by (simp add: user_slots_ok_user_update toggle_video_def getUserBySocketId_def
        split: option.splits)
next
  case (r_toggle_audio s socketId enabled)
  then show ?case by (simp add: user_slots_ok_user_update toggle_audio_def getUserBySocketId_def
        split: option.splits)
next
  case (r_stop_screen_share s socketId)
  then show ?case
    by (simp add: stop_screen_share_def removeUserScreenShares_def case_prod_beta)
next
  case (r_disconnect s socketId)
  then show ?case by (simp add: on_disconnect_def Let_def user_slots_ok_cleanupUser)
next
  case (r_create_transport s socketId dir engine)
  then show ?case
    by (auto simp: create_transport_def create_transport_continue_def split: option.splits)
next
  case (r_create_transport_continue s socketId dir transportId)
  then show ?case by (simp add: create_transport_continue_def)
next
  case (r_produce s req engine)
  then show ?case
    by (auto simp: produce_def produce_continue_def Let_def getNextPresentationIndex_def
        split: option.splits list.splits)
next
  case (r_produce_continue s req producerId)
  then show ?case
    by (auto simp: produce_continue_def Let_def getNextPresentationIndex_def
        split: option.splits list.splits)
qed

section \<open>The server's claims\<close>

subsection \<open>Example room states are reachable\<close>

lemma room_a_reachable: "reachable room_a"
  unfolding room_a_def by (intro r_connection r_start)

lemma room_ab_reachable: "reachable room_ab"
  unfolding room_ab_def by (intro r_create_transport r_connection room_a_reachable)

lemma room_a_pools:
  "availableIndexes room_a = [1, 2] \<and> MAX_USERS room_a = 3
   \<and> availablePresentationIndexes room_a = [0, 1] \<and> MAX_SCREEN_SHARES room_a = 2"
  by code_simp

lemma sharing_room_run: "sharing_room = snd (snd (produce (screen_request ''a'') (Some ''p1'') room_ab))"
  by code_simp

lemma sharing_room_reachable: "reachable sharing_room"
  unfolding sharing_room_run by (intro r_produce room_ab_reachable)

lemma two_shares_run:
  "two_shares = snd (snd (produce ((screen_request ''a'')\<lparr>r_kind := ''audio''\<rparr>) (Some ''p2'') sharing_room))"
  by code_simp

lemma ghost_room_reachable: "reachable ghost_room"
  unfolding ghost_room_def by (intro r_create_transport r_start)

subsection \<open>C1: what a disconnect announces\<close>

text \<open>
  C1 (not what the code does). The claim: for every participant that disconnects while
  owning screen-share producers, the disconnect handler emits \<open>user-left\<close> and one
  \<open>presentation-ended\<close> per destroyed screen-share producer, to all clients.
  In \<open>sharing_room\<close> the participant \<open>a\<close> owns the screen producer \<open>p1\<close>. Its
  disconnect destroys \<open>p1\<close> and frees the presentation slot, and emits \<open>user-left\<close>
  and \<open>room-status\<close> only: the loop that announces ended presentations reads
  \<open>RoomState.producers\<close> after \<open>cleanupUser\<close> has emptied it of the socket's producers.
  \<open>stop-screen-share\<close>, on the same state, announces \<open>p1\<close>.
\<close>

theorem disconnect_emits_no_presentation_ended:
  "reachable sharing_room
   \<and> fst (on_disconnect ''a'' sharing_room)
     = [(ToAllExcept ''a'', UserLeft ''a''), (ToAll, RoomStatus 1 3 0)]
   \<and> jm_has (producers sharing_room) ''p1''
   \<and> producers (snd (on_disconnect ''a'' sharing_room)) = []
   \<and> availablePresentationIndexes (snd (on_disconnect ''a'' sharing_room)) = [0, 1]
   \<and> fst (stop_screen_share ''a'' sharing_room)
     = [(ToAll, PresentationEnded ''p1'' (Some ''a'')), (ToAll, RoomStatus 2 3 0)]"
proof -
  have "fst (on_disconnect ''a'' sharing_room)
     = [(ToAllExcept ''a'', UserLeft ''a''), (ToAll, RoomStatus 1 3 0)]
   \<and> jm_has (producers sharing_room) ''p1''
   \<and> producers (snd (on_disconnect ''a'' sharing_room)) = []
   \<and> availablePresentationIndexes (snd (on_disconnect ''a'' sharing_room)) = [0, 1]
   \<and> fst (stop_screen_share ''a'' sharing_room)
     = [(ToAll, PresentationEnded ''p1'' (Some ''a'')), (ToAll, RoomStatus 2 3 0)]"
    by code_simp
  then show ?thesis using sharing_room_reachable by simp
qed

text \<open>
  The same for every room state and every socket: after \<open>cleanupUser\<close> no producer of
  the socket is left for the announcing loop to find.
\<close>

lemma disconnect_emissions:
  "fst (on_disconnect socketId s)
     = [(ToAllExcept socketId, UserLeft socketId), room_status (cleanupUser socketId s)]"
  by (simp add: on_disconnect_def Let_def disconnect_never_announces_presentation_end)

subsection \<open>C2: the slot pools\<close>

text \<open>
  C2. In every reachable room state, for the user pool and the presentation pool alike:
  a release leaves the free list sorted ascending, and puts the index in when it is in
  range; the acquire that follows returns the smallest free index (none when the list
  is empty); and releasing \<open>i\<close> and then acquiring returns \<open>i\<close>, both when \<open>i\<close> is in
  range and no free index is smaller and when \<open>i\<close> is the minimum of the free list.
\<close>

theorem release_keeps_pool_sorted_and_acquire_is_min:
  assumes "reachable s"
  shows "sorted (availableIndexes (releaseUserIndex idx s))
       \<and> sorted (availablePresentationIndexes (releasePresentationIndex idx s))
       \<and> (0 \<le> i \<and> i < MAX_USERS s \<longrightarrow>
            set (availableIndexes (releaseUserIndex (Some i) s)) = insert i (set (availableIndexes s)))
       \<and> (0 \<le> i \<and> i < MAX_SCREEN_SHARES s \<longrightarrow>
            set (availablePresentationIndexes (releasePresentationIndex (Some i) s))
              = insert i (set (availablePresentationIndexes s)))
       \<and> fst (getNextUserIndex (releaseUserIndex idx s)) =
            (if availableIndexes (releaseUserIndex idx s) = [] then None
             else Some (Min (set (availableIndexes (releaseUserIndex idx s)))))
       \<and> fst (getNextPresentationIndex (releasePresentationIndex idx s)) =
            (if availablePresentationIndexes (releasePresentationIndex idx s) = [] then None
             else Some (Min (set (availablePresentationIndexes (releasePresentationIndex idx s)))))
       \<and> (0 \<le> i \<and> i < MAX_USERS s \<and> (\<forall>x \<in> set (availableIndexes s). i \<le> x) \<longrightarrow>
            fst (getNextUserIndex (releaseUserIndex (Some i) s)) = Some i)
       \<and> (0 \<le> i \<and> i < MAX_SCREEN_SHARES s \<and> (\<forall>x \<in> set (availablePresentationIndexes s). i \<le> x) \<longrightarrow>
            fst (getNextPresentationIndex (releasePresentationIndex (Some i) s)) = Some i)
       \<and> (availableIndexes s \<noteq> [] \<and> i = Min (set (availableIndexes s)) \<longrightarrow>
            fst (getNextUserIndex (releaseUserIndex (Some i) s)) = Some i)
       \<and> (availablePresentationIndexes s \<noteq> [] \<and> i = Min (set (availablePresentationIndexes s)) \<longrightarrow>
            fst (getNextPresentationIndex (releasePresentationIndex (Some i) s)) = Some i)"
proof -
  from assms have ok: "user_pool_ok s" "presentation_pool_ok s"
    using reachable_pools_ok by (auto simp: pools_ok_def)
  have u: "user_pool_ok (releaseUserIndex idx s)" using ok by simp
  have p: "presentation_pool_ok (releasePresentationIndex idx s)" using ok by simp
  have su: "sorted (availableIndexes (releaseUserIndex idx s))"
    using u by (simp add: user_pool_ok_def pool_ok_def)
  have sp: "sorted (availablePresentationIndexes (releasePresentationIndex idx s))"
    using p by (simp add: presentation_pool_ok_def pool_ok_def)
  have iu: "0 \<le> i \<and> i < MAX_USERS s \<longrightarrow>
            set (availableIndexes (releaseUserIndex (Some i) s)) = insert i (set (availableIndexes s))"
    by (simp add: releaseUserIndex_def)
  have ip: "0 \<le> i \<and> i < MAX_SCREEN_SHARES s \<longrightarrow>
            set (availablePresentationIndexes (releasePresentationIndex (Some i) s))
              = insert i (set (availablePresentationIndexes s))"
    by (simp add: releasePresentationIndex_def)
  have au: "fst (getNextUserIndex (releaseUserIndex idx s)) =
            (if availableIndexes (releaseUserIndex idx s) = [] then None
             else Some (Min (set (availableIndexes (releaseUserIndex idx s)))))"
    using sorted_hd_Min [OF su] by (auto simp: getNextUserIndex_def split: list.splits)
  have ap: "fst (getNextPresentationIndex (releasePresentationIndex idx s)) =
            (if availablePresentationIndexes (releasePresentationIndex idx s) = [] then None
             else Some (Min (set (availablePresentationIndexes (releasePresentationIndex idx s)))))"
    using sorted_hd_Min [OF sp] by (auto simp: getNextPresentationIndex_def split: list.splits)
  have gu: "0 \<le> i \<and> i < MAX_USERS s \<and> (\<forall>x \<in> set (availableIndexes s). i \<le> x) \<longrightarrow>
            fst (getNextUserIndex (releaseUserIndex (Some i) s)) = Some i"
  proof
    assume a: "0 \<le> i \<and> i < MAX_USERS s \<and> (\<forall>x \<in> set (availableIndexes s). i \<le> x)"
    then have "hd (sort (availableIndexes s @ [i])) = i" by (intro hd_sort_append_min) simp
    moreover have "sort (availableIndexes s @ [i]) \<noteq> []"
      by (metis length_sort length_0_conv snoc_eq_iff_butlast)
    ultimately show "fst (getNextUserIndex (releaseUserIndex (Some i) s)) = Some i"
      using a by (auto simp: getNextUserIndex_def releaseUserIndex_def split: list.splits)
  qed
  have gp: "0 \<le> i \<and> i < MAX_SCREEN_SHARES s \<and> (\<forall>x \<in> set (availablePresentationIndexes s). i \<le> x) \<longrightarrow>
            fst (getNextPresentationIndex (releasePresentationIndex (Some i) s)) = Some i"
  proof
    assume a: "0 \<le> i \<and> i < MAX_SCREEN_SHARES s \<and> (\<forall>x \<in> set (availablePresentationIndexes s). i \<le> x)"
    then have "hd (sort (availablePresentationIndexes s @ [i])) = i"
      by (intro hd_sort_append_min) simp
    moreover have "sort (availablePresentationIndexes s @ [i]) \<noteq> []"
      by (metis length_sort length_0_conv snoc_eq_iff_butlast)
    ultimately show "fst (getNextPresentationIndex (releasePresentationIndex (Some i) s)) = Some i"
      using a by (auto simp: getNextPresentationIndex_def releasePresentationIndex_def split: list.splits)
  qed
  have mu: "availableIndexes s \<noteq> [] \<and> i = Min (set (availableIndexes s)) \<longrightarrow>
            fst (getNextUserIndex (releaseUserIndex (Some i) s)) = Some i"
  proof
    assume a: "availableIndexes s \<noteq> [] \<and> i = Min (set (availableIndexes s))"
    then have mem: "i \<in> set (availableIndexes s)" using Min_in by auto
    with ok have rng: "0 \<le> i \<and> i < MAX_USERS s"
      by (auto simp: user_pool_ok_def pool_ok_def list_all_iff)
    from a have le: "\<forall>x\<in>set (availableIndexes s). i \<le> x" by auto
    show "fst (getNextUserIndex (releaseUserIndex (Some i) s)) = Some i"
      using gu rng le by blast
  qed
  have mp: "availablePresentationIndexes s \<noteq> [] \<and> i = Min (set (availablePresentationIndexes s)) \<longrightarrow>
            fst (getNextPresentationIndex (releasePresentationIndex (Some i) s)) = Some i"
  proof
    assume a: "availablePresentationIndexes s \<noteq> [] \<and> i = Min (set (availablePresentationIndexes s))"
    then have mem: "i \<in> set (availablePresentationIndexes s)" using Min_in by auto
    with ok have rng: "0 \<le> i \<and> i < MAX_SCREEN_SHARES s"
      by (auto simp: presentation_pool_ok_def pool_ok_def list_all_iff)
    from a have le: "\<forall>x\<in>set (availablePresentationIndexes s). i \<le> x" by auto
    show "fst (getNextPresentationIndex (releasePresentationIndex (Some i) s)) = Some i"
      using gp rng le by blast
  qed
  show ?thesis using su sp iu ip au ap gu gp mu mp by blast
qed

text \<open>
  In \<open>room_a\<close> the participant \<open>a\<close> holds slot 0 and the free list is \<open>[1, 2]\<close>:
  releasing 0 gives \<open>[0, 1, 2]\<close> and the next acquire returns 0; releasing the current
  minimum 1 and acquiring returns 1.
\<close>

theorem release_keeps_pool_sorted_and_acquire_is_min_witness:
  "reachable room_a
   \<and> availableIndexes room_a = [1, 2]
   \<and> availableIndexes (releaseUserIndex (Some 0) room_a) = [0, 1, 2]
   \<and> sorted (availableIndexes (releaseUserIndex (Some 0) room_a))
   \<and> fst (getNextUserIndex (releaseUserIndex (Some 0) room_a)) = Some 0
   \<and> fst (getNextPresentationIndex (releasePresentationIndex (Some 0) room_a)) = Some 0"
proof -
  have pools: "availableIndexes room_a = [1, 2]" "MAX_USERS room_a = 3"
    "availablePresentationIndexes room_a = [0, 1]" "MAX_SCREEN_SHARES room_a = 2"
    using room_a_pools by simp_all
  have rel: "availableIndexes (releaseUserIndex (Some 0) room_a) = [0, 1, 2]"
    by (simp add: releaseUserIndex_def pools)
  have hu: "0 \<le> (0::int) \<and> 0 < MAX_USERS room_a \<and> (\<forall>x \<in> set (availableIndexes room_a). 0 \<le> x)"
    by (simp add: pools)
  have hp: "availablePresentationIndexes room_a \<noteq> []
            \<and> 0 = Min (set (availablePresentationIndexes room_a))"
    by (simp add: pools)
  from release_keeps_pool_sorted_and_acquire_is_min [OF room_a_reachable, of "Some 0" 0] hu hp
  have "sorted (availableIndexes (releaseUserIndex (Some 0) room_a))
      \<and> fst (getNextUserIndex (releaseUserIndex (Some 0) room_a)) = Some 0
      \<and> fst (getNextPresentationIndex (releasePresentationIndex (Some 0) room_a)) = Some 0"
    by blast
  then show ?thesis using room_a_reachable pools(1) rel by simp
qed

subsection \<open>C8: a screen share beyond the capacity\<close>

text \<open>
  C8. When the number of screen producers has reached \<open>MAX_SCREEN_SHARES\<close>, a
  \<open>produce\<close> request with source \<open>screen\<close> on a known transport is answered
  PresentationFull (403), nothing is emitted and the room state (both pools,
  \<open>producers\<close>, \<open>screenProducers\<close>, \<open>transports\<close>, \<open>users\<close>) is the one before. The
  same holds for the second check, made when the media engine has answered: with the
  presentation pool empty the request is answered PresentationFull and the state
  stays. Any request answered PresentationFull, by either check, leaves the room
  state as it was.
\<close>

theorem produce_presentation_full_unchanged:
  "(r_source req = ''screen'' \<and> getScreenShareCount s \<ge> MAX_SCREEN_SHARES s
      \<and> jm_has (transports s) (r_transportId req)
      \<longrightarrow> produce req engine s = (Inl PresentationFull, [], s))
   \<and> (r_source req = ''screen'' \<and> availablePresentationIndexes s = []
      \<longrightarrow> produce_continue req producerId s = (Inl PresentationFull, [], s))
   \<and> (fst (produce req engine s) = Inl PresentationFull
      \<longrightarrow> produce req engine s = (Inl PresentationFull, [], s))
   \<and> (fst (produce_continue req producerId s) = Inl PresentationFull
      \<longrightarrow> produce_continue req producerId s = (Inl PresentationFull, [], s))"
  by (auto simp: produce_def produce_continue_def Let_def getNextPresentationIndex_def
      jm_has_iff jm_get_None_iff split: option.splits list.splits)

text \<open>
  In \<open>two_shares\<close> both presentation slots are taken: a third screen producer is
  refused and the state stays.
\<close>

theorem produce_presentation_full_unchanged_witness:
  "r_source (screen_request ''b'') = ''screen''
   \<and> getScreenShareCount two_shares = 2 \<and> MAX_SCREEN_SHARES two_shares = 2
   \<and> availablePresentationIndexes two_shares = []
   \<and> jm_has (transports two_shares) (r_transportId (screen_request ''b''))
   \<and> produce (screen_request ''b'') (Some ''p3'') two_shares = (Inl PresentationFull, [], two_shares)
   \<and> http_status PresentationFull = 403"
proof -
  have h: "r_source (screen_request ''b'') = ''screen''"
    "getScreenShareCount two_shares = 2" "MAX_SCREEN_SHARES two_shares = 2"
    "availablePresentationIndexes two_shares = []"
    "jm_has (transports two_shares) (r_transportId (screen_request ''b''))"
    by (simp_all add: screen_request_def two_shares_def getScreenShareCount_def jm_size_def)
  have h0: "r_source (screen_request ''b'') = ''screen''
            \<and> getScreenShareCount two_shares \<ge> MAX_SCREEN_SHARES two_shares
            \<and> jm_has (transports two_shares) (r_transportId (screen_request ''b''))"
    using h by simp
  from produce_presentation_full_unchanged [of "screen_request ''b''" two_shares "Some ''p3''"] h0
  have "produce (screen_request ''b'') (Some ''p3'') two_shares = (Inl PresentationFull, [], two_shares)"
    by blast
  then show ?thesis using h by simp
qed

subsection \<open>C9: a connection to a full room\<close>

text \<open>
  C9. When the number of admitted users equals \<open>MAX_USERS\<close>, a connection is answered
  with \<open>room-full\<close> on that socket alone, the socket is closed, and the room state
  (the users map, both pools, the transports and producers) is the one before.
\<close>

theorem admission_room_full_no_mutation:
  assumes "jm_size (users s) = MAX_USERS s"
  shows "on_connection socketId s = ([(ToSocket socketId, RoomFull)], True, s)"
  using assms by (simp add: on_connection_def isRoomFull_def)

theorem admission_room_full_no_mutation_witness:
  "jm_size (users full_room) = MAX_USERS full_room
   \<and> on_connection ''d'' full_room = ([(ToSocket ''d'', RoomFull)], True, full_room)"
proof -
  have h: "jm_size (users full_room) = MAX_USERS full_room"
    by (simp add: full_room_def jm_size_def)
  from admission_room_full_no_mutation [OF h, of "''d''"] h show ?thesis by simp
qed

text \<open>The second room-full return, for an empty user pool, leaves the state as well.\<close>

lemma on_connection_rejects:
  "jm_size (users s) \<ge> MAX_USERS s \<or> availableIndexes s = [] \<Longrightarrow>
   on_connection socketId s = ([(ToSocket socketId, RoomFull)], True, s)"
  by (auto simp: on_connection_def isRoomFull_def getNextUserIndex_def)

subsection \<open>C10: running \<open>cleanupUser\<close> again\<close>

text \<open>
  C10 as stated fails: \<open>ghost_room\<close> is reachable, the socket id \<open>ghost\<close> has no
  entry in its users map, and \<open>cleanupUser\<close> for it removes the transport registered
  under that id (\<open>create-transport\<close> registers a receive transport for any socket id).
\<close>

theorem cleanupUser_removes_orphan_transport:
  "reachable ghost_room
   \<and> jm_get (users ghost_room) ''ghost'' = None
   \<and> transports ghost_room = [(''t1'', \<lparr>t_socketId = ''ghost'', direction = ''recv''\<rparr>)]
   \<and> transports (cleanupUser ''ghost'' ghost_room) = []
   \<and> cleanupUser ''ghost'' ghost_room \<noteq> ghost_room"
proof -
  have a: "jm_get (users ghost_room) ''ghost'' = None"
    "transports ghost_room = [(''t1'', \<lparr>t_socketId = ''ghost'', direction = ''recv''\<rparr>)]"
    "transports (cleanupUser ''ghost'' ghost_room) = []"
    by (simp_all add: ghost_room_def create_transport_def create_transport_continue_def
        resetServerState_def cleanupUser_def
        getUserBySocketId_def)
  then have "cleanupUser ''ghost'' ghost_room \<noteq> ghost_room" by auto
  with a ghost_room_reachable show ?thesis by simp
qed

text \<open>
  C10, amended. \<open>cleanupUser\<close> is idempotent: a second run for the same socket id
  changes nothing. For a socket id with no entry in the users map it leaves the users
  map and the user pool as they are (no index is released), and the whole room state
  when, besides, no producer and no transport is registered under that id. In every
  reachable state the free user indices are pairwise distinct, also after a disconnect.
\<close>

theorem cleanupUser_idempotent:
  "cleanupUser socketId (cleanupUser socketId s) = cleanupUser socketId s
   \<and> (jm_get (users s) socketId = None \<longrightarrow>
        users (cleanupUser socketId s) = users s
      \<and> availableIndexes (cleanupUser socketId s) = availableIndexes s)
   \<and> (jm_get (users s) socketId = None
        \<and> list_all (\<lambda>e. p_socketId (snd e) \<noteq> socketId) (producers s)
        \<and> list_all (\<lambda>e. t_socketId (snd e) \<noteq> socketId) (transports s) \<longrightarrow>
        cleanupUser socketId s = s)
   \<and> (reachable s \<longrightarrow>
        distinct (availableIndexes s)
      \<and> distinct (availableIndexes (snd (on_disconnect socketId s))))"
proof -
  have a: "jm_get (users s) socketId = None \<longrightarrow>
        users (cleanupUser socketId s) = users s
      \<and> availableIndexes (cleanupUser socketId s) = availableIndexes s"
    by (simp add: cleanupUser_def Let_def jm_delete_absent)
  have b: "jm_get (users s) socketId = None
        \<and> list_all (\<lambda>e. p_socketId (snd e) \<noteq> socketId) (producers s)
        \<and> list_all (\<lambda>e. t_socketId (snd e) \<noteq> socketId) (transports s) \<longrightarrow>
        cleanupUser socketId s = s"
    using cleanupUser_noop by blast
  have c: "reachable s \<longrightarrow>
        distinct (availableIndexes s)
      \<and> distinct (availableIndexes (snd (on_disconnect socketId s)))"
  proof
    assume r: "reachable s"
    then have "reachable (snd (on_disconnect socketId s))" by (rule r_disconnect)
    then show "distinct (availableIndexes s)
      \<and> distinct (availableIndexes (snd (on_disconnect socketId s)))"
      using r reachable_user_slots_ok by (auto simp: user_slots_ok_def)
  qed
  show ?thesis using cleanupUser_idem a b c by blast
qed

text \<open>
  In \<open>sharing_room\<close>, \<open>a\<close> disconnects: slot 0 is freed once, and a second cleanup for
  \<open>a\<close>, which has no entry any more, changes nothing.
\<close>

theorem cleanupUser_idempotent_witness:
  "reachable sharing_room
   \<and> availableIndexes (cleanupUser ''a'' sharing_room) = [0, 2]
   \<and> jm_get (users (cleanupUser ''a'' sharing_room)) ''a'' = None
   \<and> cleanupUser ''a'' (cleanupUser ''a'' sharing_room) = cleanupUser ''a'' sharing_room
   \<and> availableIndexes (cleanupUser ''a'' (cleanupUser ''a'' sharing_room)) = [0, 2]
   \<and> distinct (availableIndexes (snd (on_disconnect ''a'' sharing_room)))"
proof -
  have e: "availableIndexes (cleanupUser ''a'' sharing_room) = [0, 2]"
    "jm_get (users (cleanupUser ''a'' sharing_room)) ''a'' = None"
    by (simp_all add: sharing_room_def anonymous_def cleanupUser_def Let_def releaseUserIndex_def
        releasePresentationIndex_def)
  from cleanupUser_idempotent [of "''a''" sharing_room] sharing_room_reachable
  have "cleanupUser ''a'' (cleanupUser ''a'' sharing_room) = cleanupUser ''a'' sharing_room
      \<and> distinct (availableIndexes (snd (on_disconnect ''a'' sharing_room)))"
    by blast
  then show ?thesis using e sharing_room_reachable by simp
qed

section \<open>Lemmas about the client\<close>

subsection \<open>What each step leaves alone\<close>

lemma update_wrapper_frame [simp]:
  "my_socket_id (update_wrapper l f s) = my_socket_id s"
  "deviceReady (update_wrapper l f s) = deviceReady s"
  "consumers (update_wrapper l f s) = consumers s"
  "consumerTransports (update_wrapper l f s) = consumerTransports s"
  "userStates (update_wrapper l f s) = userStates s"
  "presentations (update_wrapper l f s) = presentations s"
  "pendingProducers (update_wrapper l f s) = pendingProducers s"
  "pendingPresentations (update_wrapper l f s) = pendingPresentations s"
  "replies (update_wrapper l f s) = replies s"
  "videoSwitcherShown (update_wrapper l f s) = videoSwitcherShown s"
  "swapSource (update_wrapper l f s) = swapSource s"
  "swapTarget (update_wrapper l f s) = swapTarget s"
  "isSwapMode (update_wrapper l f s) = isSwapMode s"
  by (cases l; simp split: option.splits)+

lemma setupMediaElement_frame [simp]:
  "my_socket_id (setupMediaElement l c k a s) = my_socket_id s"
  "deviceReady (setupMediaElement l c k a s) = deviceReady s"
  "consumers (setupMediaElement l c k a s) = consumers s"
  "consumerTransports (setupMediaElement l c k a s) = consumerTransports s"
  "userStates (setupMediaElement l c k a s) = userStates s"
  "presentations (setupMediaElement l c k a s) = presentations s"
  "pendingProducers (setupMediaElement l c k a s) = pendingProducers s"
  "pendingPresentations (setupMediaElement l c k a s) = pendingPresentations s"
  "replies (setupMediaElement l c k a s) = replies s"
  "videoSwitcherShown (setupMediaElement l c k a s) = videoSwitcherShown s"
  by (simp_all add: setupMediaElement_def)

lemma updateVideoSwitcherList_frame [simp]:
  "my_socket_id (updateVideoSwitcherList s) = my_socket_id s"
  "deviceReady (updateVideoSwitcherList s) = deviceReady s"
  "consumers (updateVideoSwitcherList s) = consumers s"
  "consumerTransports (updateVideoSwitcherList s) = consumerTransports s"
  "userStates (updateVideoSwitcherList s) = userStates s"
  "presentations (updateVideoSwitcherList s) = presentations s"
  "pendingProducers (updateVideoSwitcherList s) = pendingProducers s"
  "pendingPresentations (updateVideoSwitcherList s) = pendingPresentations s"
  "replies (updateVideoSwitcherList s) = replies s"
  "peersContainer (updateVideoSwitcherList s) = peersContainer s"
  "presentationsContainer (updateVideoSwitcherList s) = presentationsContainer s"
  "swapSource (updateVideoSwitcherList s) = swapSource s"
  "swapTarget (updateVideoSwitcherList s) = swapTarget s"
  "isSwapMode (updateVideoSwitcherList s) = isSwapMode s"
  by (simp_all add: updateVideoSwitcherList_def)

lemma createUserElement_frame [simp]:
  "my_socket_id (createUserElement sid c k p u a s) = my_socket_id s"
  "deviceReady (createUserElement sid c k p u a s) = deviceReady s"
  "consumers (createUserElement sid c k p u a s) = consumers s"
  "consumerTransports (createUserElement sid c k p u a s) = consumerTransports s"
  "userStates (createUserElement sid c k p u a s) = userStates s"
  "presentations (createUserElement sid c k p u a s) = presentations s"
  "pendingProducers (createUserElement sid c k p u a s) = pendingProducers s"
  "pendingPresentations (createUserElement sid c k p u a s) = pendingPresentations s"
  "replies (createUserElement sid c k p u a s) = replies s"
  by (simp_all add: createUserElement_def Let_def split: option.splits)

lemma createPresentationElement_frame [simp]:
  "my_socket_id (createPresentationElement pid c k p u a s) = my_socket_id s"
  "deviceReady (createPresentationElement pid c k p u a s) = deviceReady s"
  "consumers (createPresentationElement pid c k p u a s) = consumers s"
  "consumerTransports (createPresentationElement pid c k p u a s) = consumerTransports s"
  "userStates (createPresentationElement pid c k p u a s) = userStates s"
  "presentations (createPresentationElement pid c k p u a s) = presentations s"
  "pendingProducers (createPresentationElement pid c k p u a s) = pendingProducers s"
  "pendingPresentations (createPresentationElement pid c k p u a s) = pendingPresentations s"
  "replies (createPresentationElement pid c k p u a s) = replies s"
  "videoSwitcherShown (createPresentationElement pid c k p u a s) = videoSwitcherShown s"
  by (simp_all add: createPresentationElement_def Let_def split: option.splits)

lemma consumeProducer_frame [simp]:
  "my_socket_id (consumeProducer d isP s) = my_socket_id s"
  "deviceReady (consumeProducer d isP s) = deviceReady s"
  "pendingProducers (consumeProducer d isP s) = pendingProducers s"
  "pendingPresentations (consumeProducer d isP s) = pendingPresentations s"
  by (simp_all add: consumeProducer_def Let_def split: list.splits reply.splits)

lemma addUser_frame [simp]:
  "deviceReady (addUser sid n u v a s) = deviceReady s"
  "pendingProducers (addUser sid n u v a s) = pendingProducers s"
  "pendingPresentations (addUser sid n u v a s) = pendingPresentations s"
  by (simp_all add: addUser_def Let_def)

lemma init_users_frame [simp]:
  "deviceReady (init_users us s) = deviceReady s"
  "pendingProducers (init_users us s) = pendingProducers s"
  "pendingPresentations (init_users us s) = pendingPresentations s"
  by (induction us s rule: init_users.induct; simp)+

lemma updateLocalUserIndex_frame [simp]:
  "deviceReady (updateLocalUserIndex u s) = deviceReady s"
  "pendingProducers (updateLocalUserIndex u s) = pendingProducers s"
  "pendingPresentations (updateLocalUserIndex u s) = pendingPresentations s"
  by (simp_all add: updateLocalUserIndex_def Let_def split: option.splits)

subsection \<open>The pending queues\<close>

lemma init_producers_queues:
  "deviceReady (init_producers ps s) = deviceReady s"
  "pendingProducers (init_producers ps s) = pendingProducers s @ filter (\<lambda>p. \<not> d_isScreen p) ps"
  "pendingPresentations (init_producers ps s) = pendingPresentations s @ filter d_isScreen ps"
  by (induction ps s rule: init_producers.induct; simp)+

lemma receive_buffers:
  assumes "\<not> deviceReady s"
  shows "\<not> deviceReady (receive a s)"
    and "pendingProducers (receive a s) = pendingProducers s @ arrival_producers a"
    and "pendingPresentations (receive a s) = pendingPresentations s @ arrival_presentations a"
  using assms
  by (cases a; simp add: on_init_def on_new_producer_def on_new_presentation_def init_producers_queues)+

lemma receive_all_buffers:
  assumes "\<not> deviceReady s"
  shows "\<not> deviceReady (receive_all as s)
       \<and> pendingProducers (receive_all as s) = pendingProducers s @ concat (map arrival_producers as)
       \<and> pendingPresentations (receive_all as s)
           = pendingPresentations s @ concat (map arrival_presentations as)"
  using assms
proof (induction as arbitrary: s)
  case Nil
  then show ?case by simp
next
  case (Cons a as)
  from Cons.prems have r: "\<not> deviceReady (receive a s)" by (rule receive_buffers(1))
  show ?case
    using Cons.IH [OF r] receive_buffers(2,3) [OF Cons.prems, of a] by simp
qed

lemma dispatch_all_append: "dispatch_all (xs @ ys) s = dispatch_all ys (dispatch_all xs s)"
  by (induction xs s rule: dispatch_all.induct) auto

lemma pending_producers_loop_dispatch:
  "pending_producers_loop ps s = dispatch_all (map (\<lambda>d. (d, False)) ps) s"
  by (induction ps s rule: pending_producers_loop.induct) (auto simp: consumeUserProducer_def)

lemma pending_presentations_loop_dispatch:
  "pending_presentations_loop ps s = dispatch_all (map (\<lambda>d. (d, True)) ps) s"
  by (induction ps s rule: pending_presentations_loop.induct) (auto simp: consumePresentation_def)

lemma dispatch_all_frame [simp]:
  "pendingProducers (dispatch_all xs s) = pendingProducers s"
  "pendingPresentations (dispatch_all xs s) = pendingPresentations s"
  "deviceReady (dispatch_all xs s) = deviceReady s"
  by (induction xs s rule: dispatch_all.induct; simp)+

lemma processPendingProducers_dispatch:
  "processPendingProducers s =
     (dispatch_all (map (\<lambda>d. (d, False)) (pendingProducers s)
                    @ map (\<lambda>d. (d, True)) (pendingPresentations s)) s)
       \<lparr>pendingProducers := [], pendingPresentations := []\<rparr>"
  by (simp add: processPendingProducers_def Let_def pending_producers_loop_dispatch
      pending_presentations_loop_dispatch dispatch_all_append)

subsection \<open>Render slots\<close>

lemma index_where_None: "index_where P xs = None \<longleftrightarrow> filter P xs = []"
  by (induction xs) auto

lemma index_where_Some_filter: "index_where P xs = Some i \<Longrightarrow> filter P xs \<noteq> []"
  using index_where_None [of P xs] by simp

lemma locate_None: "locate P s = None \<longleftrightarrow> filter P (all_wrappers s) = []"
  by (auto simp: locate_def all_wrappers_def index_where_None split: option.splits
      dest: index_where_Some_filter)

lemma filter_list_update_same:
  "i < length xs \<Longrightarrow> P (f (xs ! i)) = P (xs ! i) \<Longrightarrow>
   length (filter P (xs[i := f (xs ! i)])) = length (filter P xs)"
proof (induction xs arbitrary: i)
  case Nil
  then show ?case by simp
next
  case (Cons x xs)
  then show ?case by (cases i) auto
qed

lemma update_wrapper_slots:
  assumes "\<And>w. w_id (f w) = w_id w"
  shows "length (render_slots e (update_wrapper l f s)) = length (render_slots e s)"
proof (cases l)
  case (InPeers i)
  then show ?thesis
    using assms filter_list_update_same [of i "peersContainer s" "\<lambda>w. w_id w = e" f]
    by (auto simp: render_slots_def all_wrappers_def)
next
  case (InPresentations i)
  then show ?thesis
    using assms
    by (auto simp: render_slots_def all_wrappers_def filter_list_update_same split: option.splits)
qed

lemma setupMediaElement_slots:
  "length (render_slots e (setupMediaElement l c k a s)) = length (render_slots e s)"
  by (simp add: setupMediaElement_def update_wrapper_slots)

lemma createUserElement_slots:
  assumes "e = ''user-'' @ sid" and "length (render_slots e s) \<le> 1"
  shows "length (render_slots e (createUserElement sid c k p u a s)) = 1"
proof (cases "getElementById e s")
  case None
  then have "render_slots e s = []"
    by (simp add: getElementById_def locate_None render_slots_def)
  then show ?thesis using None assms(1) [symmetric]
    by (simp add: createUserElement_def Let_def setupMediaElement_slots del: append.simps)
       (simp add: render_slots_def all_wrappers_def new_wrapper_def del: append.simps)
next
  case (Some l)
  then have "render_slots e s \<noteq> []"
    using locate_None [of "\<lambda>w. w_id w = e" s]
    by (auto simp: getElementById_def render_slots_def)
  then have "length (render_slots e s) = 1"
    using assms(2) by (cases "render_slots e s") auto
  then show ?thesis using Some assms(1) [symmetric]
    by (simp add: createUserElement_def Let_def setupMediaElement_slots del: append.simps)
qed

lemma createPresentationElement_slots:
  assumes "e = ''presentation-'' @ pid" and "length (render_slots e s) \<le> 1"
  shows "length (render_slots e (createPresentationElement pid c k p u a s)) = 1"
proof (cases "getElementById e s")
  case None
  then have "render_slots e s = []"
    by (simp add: getElementById_def locate_None render_slots_def)
  then show ?thesis using None assms(1) [symmetric]
    by (simp add: createPresentationElement_def Let_def setupMediaElement_slots del: append.simps)
       (simp add: render_slots_def all_wrappers_def new_wrapper_def split: option.splits
          del: append.simps)
next
  case (Some l)
  then have "render_slots e s \<noteq> []"
    using locate_None [of "\<lambda>w. w_id w = e" s]
    by (auto simp: getElementById_def render_slots_def)
  then have "length (render_slots e s) = 1"
    using assms(2) by (cases "render_slots e s") auto
  then show ?thesis using Some assms(1) [symmetric]
    by (simp add: createPresentationElement_def Let_def setupMediaElement_slots del: append.simps)
qed

lemma createUserElement_has_slot:
  assumes "e = ''user-'' @ sid"
  shows "render_slots e (createUserElement sid c k p u a s) \<noteq> []"
proof (cases "getElementById e s")
  case None
  then have "length (render_slots e (createUserElement sid c k p u a s)) = 1"
    using assms by (intro createUserElement_slots)
      (simp_all add: getElementById_def locate_None render_slots_def)
  then show ?thesis by auto
next
  case (Some l)
  then have "render_slots e s \<noteq> []"
    using locate_None [of "\<lambda>w. w_id w = e" s]
    by (auto simp: getElementById_def render_slots_def)
  moreover have "length (render_slots e (createUserElement sid c k p u a s)) = length (render_slots e s)"
    using Some assms [symmetric]
    by (simp add: createUserElement_def Let_def setupMediaElement_slots del: append.simps)
  ultimately show ?thesis by auto
qed

lemma createPresentationElement_has_slot:
  assumes "e = ''presentation-'' @ pid"
  shows "render_slots e (createPresentationElement pid c k p u a s) \<noteq> []"
proof (cases "getElementById e s")
  case None
  then have "length (render_slots e (createPresentationElement pid c k p u a s)) = 1"
    using assms by (intro createPresentationElement_slots)
      (simp_all add: getElementById_def locate_None render_slots_def)
  then show ?thesis by auto
next
  case (Some l)
  then have "render_slots e s \<noteq> []"
    using locate_None [of "\<lambda>w. w_id w = e" s]
    by (auto simp: getElementById_def render_slots_def)
  moreover have "length (render_slots e (createPresentationElement pid c k p u a s))
                 = length (render_slots e s)"
    using Some assms [symmetric]
    by (simp add: createPresentationElement_def Let_def setupMediaElement_slots del: append.simps)
  ultimately show ?thesis by auto
qed

lemma render_slots_frame [simp]:
  "render_slots e (updateVideoSwitcherList s) = render_slots e s"
  "render_slots e (s\<lparr>replies := r\<rparr>) = render_slots e s"
  "render_slots e (s\<lparr>consumers := c\<rparr>) = render_slots e s"
  "render_slots e (s\<lparr>consumerTransports := ct\<rparr>) = render_slots e s"
  "render_slots e (s\<lparr>presentations := p\<rparr>) = render_slots e s"
  "render_slots e (s\<lparr>userStates := u\<rparr>) = render_slots e s"
  by (simp_all add: render_slots_def all_wrappers_def updateVideoSwitcherList_def)

subsection \<open>One consume attempt\<close>

lemma jm_has_set [simp]: "jm_has (jm_set k v m) k"
  by (induction m) auto

lemma jm_get_set [simp]: "jm_get (jm_set k v m) k = Some v"
  by (induction m) auto

lemma jm_has_iff_filter: "jm_has m k \<longleftrightarrow> filter (\<lambda>e. fst e = k) m \<noteq> []"
  by (induction m) auto

lemma jm_set_fresh: "\<not> jm_has m k \<Longrightarrow> filter (\<lambda>e. fst e = k) (jm_set k v m) = [(k, v)]"
  by (induction m) (auto split: if_splits)

lemma consumeProducer_seen: "jm_has (consumers s) (d_id d) \<Longrightarrow> consumeProducer d isP s = s"
  by (simp add: consumeProducer_def)

lemma consumeProducer_records:
  assumes "\<not> (d_socketId d = my_socket_id s \<and> \<not> isP)"
    and "\<not> jm_has (consumers s) (d_id d)"
    and "replies s = Consumed tid cid att # rest"
  shows "filter (\<lambda>e. fst e = d_id d) (consumers (consumeProducer d isP s))
           = [(d_id d, \<lparr>c_consumer = cid, c_transport = tid, c_socketId = d_socketId d,
                        c_kind = d_kind d, c_isPresentation = isP\<rparr>)]"
  using assms by (auto simp: consumeProducer_def Let_def jm_set_fresh)

lemma consumeProducer_slot:
  assumes "\<not> (d_socketId d = my_socket_id s \<and> \<not> isP)"
    and "\<not> jm_has (consumers s) (d_id d)"
    and "replies s = Consumed tid cid att # rest"
    and "length (render_slots (slot_id d isP) s) \<le> 1"
  shows "length (render_slots (slot_id d isP) (consumeProducer d isP s)) = 1"
proof (cases isP)
  case True
  then show ?thesis using assms
    by (simp add: consumeProducer_def Let_def slot_id_def createPresentationElement_slots)
next
  case False
  then show ?thesis using assms
    by (simp add: consumeProducer_def Let_def slot_id_def createUserElement_slots)
qed

lemma consumeProducer_has_slot:
  assumes "\<not> (d_socketId d = my_socket_id s \<and> \<not> isP)"
    and "\<not> jm_has (consumers s) (d_id d)"
    and "replies s = Consumed tid cid att # rest"
  shows "render_slots (slot_id d isP) (consumeProducer d isP s) \<noteq> []"
proof (cases isP)
  case True
  then show ?thesis using assms
    by (simp add: consumeProducer_def Let_def slot_id_def createPresentationElement_has_slot)
next
  case False
  then show ?thesis using assms
    by (simp add: consumeProducer_def Let_def slot_id_def createUserElement_has_slot)
qed

subsection \<open>At most one slot and one entry\<close>

lemma jm_set_filter_other:
  "k' \<noteq> k \<Longrightarrow> filter (\<lambda>x. fst x = k) (jm_set k' v m) = filter (\<lambda>x. fst x = k) m"
  by (induction m) auto

lemma jm_set_filter_same:
  "length (filter (\<lambda>x. fst x = k) (jm_set k v m))
     = (if filter (\<lambda>x. fst x = k) m = [] then 1 else length (filter (\<lambda>x. fst x = k) m))"
  by (induction m) auto

lemma jm_set_entries_le:
  "length (filter (\<lambda>x. fst x = k) m) \<le> 1 \<Longrightarrow> length (filter (\<lambda>x. fst x = k) (jm_set k' v m)) \<le> 1"
  by (cases "k' = k") (simp_all add: jm_set_filter_other jm_set_filter_same)

lemma consumeProducer_entries_le:
  assumes "length (filter (\<lambda>x. fst x = k) (consumers s)) \<le> 1"
  shows "length (filter (\<lambda>x. fst x = k) (consumers (consumeProducer d isP s))) \<le> 1"
  using assms jm_set_entries_le [of k "consumers s" "d_id d"]
  by (simp add: consumeProducer_def Let_def split: list.splits reply.splits)

lemma render_slots_append_peer:
  "render_slots e (s\<lparr>peersContainer := peersContainer s @ [w]\<rparr>)
     = filter (\<lambda>w. w_id w = e) (peersContainer s) @ (if w_id w = e then [w] else [])
       @ filter (\<lambda>w. w_id w = e) (case presentationsContainer s of None \<Rightarrow> [] | Some ps \<Rightarrow> ps)"
  by (simp add: render_slots_def all_wrappers_def)

lemma createUserElement_slots_le:
  assumes "length (render_slots e s) \<le> 1"
  shows "length (render_slots e (createUserElement sid c k p u a s)) \<le> 1"
proof (cases "getElementById (''user-'' @ sid) s")
  case None
  then have none: "render_slots (''user-'' @ sid) s = []"
    by (simp add: getElementById_def locate_None render_slots_def)
  show ?thesis
  proof (cases "e = ''user-'' @ sid")
    case True
    then show ?thesis
      using createUserElement_slots [of e sid s c k p u a] assms by simp
  next
    case False
    then have "length (render_slots e (createUserElement sid c k p u a s)) = length (render_slots e s)"
      using None
      by (simp add: createUserElement_def Let_def setupMediaElement_slots del: append.simps)
         (auto simp: render_slots_def all_wrappers_def new_wrapper_def simp del: append.simps)
    then show ?thesis using assms by simp
  qed
next
  case (Some l)
  then have "length (render_slots e (createUserElement sid c k p u a s)) = length (render_slots e s)"
    by (simp add: createUserElement_def Let_def setupMediaElement_slots del: append.simps)
  then show ?thesis using assms by simp
qed

lemma createPresentationElement_slots_le:
  assumes "length (render_slots e s) \<le> 1"
  shows "length (render_slots e (createPresentationElement pid c k p u a s)) \<le> 1"
proof (cases "getElementById (''presentation-'' @ pid) s")
  case None
  show ?thesis
  proof (cases "e = ''presentation-'' @ pid")
    case True
    then show ?thesis
      using createPresentationElement_slots [of e pid s c k p u a] assms by simp
  next
    case False
    then have "length (render_slots e (createPresentationElement pid c k p u a s))
               = length (render_slots e s)"
      using None
      by (simp add: createPresentationElement_def Let_def setupMediaElement_slots del: append.simps)
         (auto simp: render_slots_def all_wrappers_def new_wrapper_def simp del: append.simps
            split: option.splits)
    then show ?thesis using assms by simp
  qed
next
  case (Some l)
  then have "length (render_slots e (createPresentationElement pid c k p u a s))
             = length (render_slots e s)"
    by (simp add: createPresentationElement_def Let_def setupMediaElement_slots del: append.simps)
  then show ?thesis using assms by simp
qed

lemma slots_le_Suc:
  "length (render_slots e s) \<le> Suc 0 \<Longrightarrow>
     length (render_slots e (createUserElement sid c k p u a s)) \<le> Suc 0"
  "length (render_slots e s) \<le> Suc 0 \<Longrightarrow>
     length (render_slots e (createPresentationElement pid c k p u a s)) \<le> Suc 0"
  using createUserElement_slots_le [of e s sid c k p u a]
    createPresentationElement_slots_le [of e s pid c k p u a]
  by simp_all

lemma consumeProducer_slots_le:
  assumes "length (render_slots e s) \<le> 1"
  shows "length (render_slots e (consumeProducer d isP s)) \<le> 1"
  using assms
  by (simp add: consumeProducer_def Let_def slots_le_Suc split: list.splits reply.splits)

subsection \<open>The steps of an attempt\<close>

text \<open>
  An attempt that nothing interleaves with is its steps one after the other.
\<close>

lemma consumeProducer_steps:
  "consumeProducer d isP s =
     (if \<not> consume_start d isP s then s
      else case replies s of [] \<Rightarrow> s
           | r # rest \<Rightarrow> consume_answered d isP r (s\<lparr>replies := rest\<rparr>))"
  by (simp add: consumeProducer_def consume_start_def consume_answered_def
        consume_transport_created_def consume_consumer_created_def Let_def
        split: list.splits reply.splits)

lemma consume_consumer_created_entries:
  assumes "length (filter (\<lambda>x. fst x = d_id d) (consumers s)) \<le> 1"
  shows "length (filter (\<lambda>x. fst x = d_id d)
           (consumers (consume_consumer_created d isP tid cid att s))) = 1"
  using assms
  by (cases "filter (\<lambda>x. fst x = d_id d) (consumers s)")
     (simp_all add: consume_consumer_created_def Let_def jm_set_filter_same)

lemma consume_consumer_created_slot:
  assumes "length (render_slots (slot_id d isP) s) \<le> 1"
  shows "length (render_slots (slot_id d isP) (consume_consumer_created d isP tid cid att s)) = 1"
proof (cases isP)
  case True
  then show ?thesis using assms
    by (simp add: consume_consumer_created_def Let_def slot_id_def createPresentationElement_slots)
next
  case False
  then show ?thesis using assms
    by (simp add: consume_consumer_created_def Let_def slot_id_def createUserElement_slots)
qed

lemma consume_consumer_created_seen:
  "jm_has (consumers (consume_consumer_created d isP tid cid att s)) (d_id d)"
  by (simp add: consume_consumer_created_def Let_def)

subsection \<open>The swap gesture\<close>

lemma map_update_same: "(map g xs)[i := g (xs ! i)] = map g xs"
  by (metis list_update_id map_update)

lemma slot_order_update_wrapper:
  assumes "\<And>w. w_id (f w) = w_id w"
  shows "slot_order (update_wrapper l f s) = slot_order s"
proof (cases l)
  case (InPeers i)
  then show ?thesis using assms by (simp add: slot_order_def map_update map_update_same)
next
  case (InPresentations i)
  then show ?thesis using assms
    by (simp add: slot_order_def map_update map_update_same split: option.splits)
qed

lemma slot_order_map_wrappers:
  assumes "\<And>w. w_id (f w) = w_id w"
  shows "slot_order (map_wrappers f s) = slot_order s"
  using assms by (simp add: slot_order_def map_wrappers_def option.map_comp comp_def)

lemma slot_order_frame [simp]:
  "slot_order (s\<lparr>swapSource := a\<rparr>) = slot_order s"
  "slot_order (s\<lparr>swapTarget := b\<rparr>) = slot_order s"
  "slot_order (s\<lparr>isSwapMode := c\<rparr>) = slot_order s"
  "slot_order (s\<lparr>bodySwapMode := c\<rparr>) = slot_order s"
  "slot_order (updateVideoSwitcherList s) = slot_order s"
  "slot_order (hideSwapInstructions s) = slot_order s"
  by (simp_all add: slot_order_def updateVideoSwitcherList_def hideSwapInstructions_def)

lemma slot_order_highlightSwapTarget [simp]:
  "slot_order (highlightSwapTarget lbl s) = slot_order s"
  by (simp add: highlightSwapTarget_def slot_order_update_wrapper split: option.splits)

lemma slot_order_cancelSwap [simp]: "slot_order (cancelSwap s) = slot_order s"
  by (simp add: cancelSwap_def disableSwapModeVisuals_def clearSwapHighlights_def
      slot_order_map_wrappers)

lemma cancelSwap_idle:
  "swapSource (cancelSwap s) = None" "swapTarget (cancelSwap s) = None"
  "\<not> isSwapMode (cancelSwap s)"
  by (simp_all add: cancelSwap_def disableSwapModeVisuals_def clearSwapHighlights_def
      hideSwapInstructions_def map_wrappers_def)

lemma cancelSwap_no_highlight:
  "list_all (\<lambda>w. \<not> swap_source w \<and> \<not> swap_target w) (all_wrappers (cancelSwap s))"
  by (auto simp: cancelSwap_def disableSwapModeVisuals_def clearSwapHighlights_def
      hideSwapInstructions_def map_wrappers_def all_wrappers_def updateVideoSwitcherList_def
      list_all_iff split: option.splits)

subsection \<open>What \<open>produce\<close> emits\<close>

lemma produce_succeeds_in_continue:
  "produce req engine s = (Inr producerId, emitted, s') \<Longrightarrow>
   produce_continue req producerId s = (Inr producerId, emitted, s')"
  by (auto simp: produce_def produce_continue_def Let_def split: option.splits if_splits prod.splits)

lemma produce_screen_emits:
  assumes "produce_continue req producerId s = (Inr producerId, emitted, s')" and "r_source req = ''screen''"
  shows "\<exists>d st. emitted = [(ToAll, NewPresentation d), st] \<and> fst st = ToAll
           \<and> d_id d = producerId \<and> d_socketId d = r_socketId req
           \<and> d_presentationIndex d \<noteq> None"
  using assms
  by (auto simp: produce_continue_def Let_def getNextPresentationIndex_def room_status_def
      split: option.splits if_splits list.splits)

lemma produce_camera_emits:
  assumes "produce_continue req producerId s = (Inr producerId, emitted, s')" and "r_source req \<noteq> ''screen''"
    and "r_socketId req \<noteq> []"
  shows "\<exists>d. emitted = [(ToAllExcept (r_socketId req), NewProducer d)]
           \<and> d_id d = producerId \<and> d_socketId d = r_socketId req"
  using assms
  by (auto simp: produce_continue_def Let_def split: option.splits if_splits)

section \<open>The client's claims\<close>

subsection \<open>C6: buffering and draining\<close>

text \<open>
  C6. While the device is not ready, a snapshot and any sequence of creation events
  only extend the two pending queues: each producer descriptor is appended to
  \<open>pendingProducers\<close>, each presentation descriptor to \<open>pendingPresentations\<close>, in
  arrival order. When the device becomes ready, \<open>processPendingProducers\<close> is one call
  of \<open>consumeProducer\<close> per queued descriptor, the producer queue first and the
  presentation queue after it, each from its first element to its last, and both
  queues are empty afterwards.
\<close>

theorem buffered_arrivals_drained_once_in_order:
  assumes "\<not> deviceReady s"
  shows "\<not> deviceReady (receive_all arrivals s)
       \<and> pendingProducers (receive_all arrivals s)
           = pendingProducers s @ concat (map arrival_producers arrivals)
       \<and> pendingPresentations (receive_all arrivals s)
           = pendingPresentations s @ concat (map arrival_presentations arrivals)
       \<and> device_loaded (receive_all arrivals s)
           = (dispatch_all
                (map (\<lambda>d. (d, False)) (pendingProducers (receive_all arrivals s))
                 @ map (\<lambda>d. (d, True)) (pendingPresentations (receive_all arrivals s)))
                ((receive_all arrivals s)\<lparr>deviceReady := True\<rparr>))
               \<lparr>pendingProducers := [], pendingPresentations := []\<rparr>
       \<and> pendingProducers (device_loaded (receive_all arrivals s)) = []
       \<and> pendingPresentations (device_loaded (receive_all arrivals s)) = []"
  using receive_all_buffers [OF assms, of arrivals]
  by (simp add: device_loaded_def processPendingProducers_dispatch)

text \<open>
  A snapshot with a camera and a screen producer, then a presentation and a producer
  event: the queues hold them by kind, and the drain consumes \<open>p1\<close>, \<open>p4\<close>, \<open>p2\<close>, \<open>p3\<close>
  in this order.
\<close>

theorem buffered_arrivals_drained_once_in_order_witness:
  "\<not> deviceReady (new_client four_replies)
   \<and> pendingProducers (receive_all buffered_arrivals (new_client four_replies))
       = [camera_of ''p1'' ''b'' 0, camera_of ''p4'' ''c'' 2]
   \<and> pendingPresentations (receive_all buffered_arrivals (new_client four_replies))
       = [screen_of ''p2'' ''b'' 0 True, screen_of ''p3'' ''c'' 1 False]
   \<and> pendingProducers (device_loaded (receive_all buffered_arrivals (new_client four_replies))) = []
   \<and> pendingPresentations (device_loaded (receive_all buffered_arrivals (new_client four_replies))) = []
   \<and> map fst (consumers (device_loaded (receive_all buffered_arrivals (new_client four_replies))))
       = [''p1'', ''p4'', ''p2'', ''p3'']"
proof -
  have nr: "\<not> deviceReady (new_client four_replies)" by (simp add: new_client_def)
  have q: "pendingProducers (new_client four_replies) = []"
    "pendingPresentations (new_client four_replies) = []"
    by (simp_all add: new_client_def)
  have a: "concat (map arrival_producers buffered_arrivals)
             = [camera_of ''p1'' ''b'' 0, camera_of ''p4'' ''c'' 2]"
    "concat (map arrival_presentations buffered_arrivals)
             = [screen_of ''p2'' ''b'' 0 True, screen_of ''p3'' ''c'' 1 False]"
    by (simp_all add: buffered_arrivals_def camera_of_def screen_of_def)
  have c: "map fst (consumers (device_loaded (receive_all buffered_arrivals (new_client four_replies))))
       = [''p1'', ''p4'', ''p2'', ''p3'']"
    by code_simp
  from buffered_arrivals_drained_once_in_order [OF nr, of buffered_arrivals]
  show ?thesis using nr q a c by simp
qed

subsection \<open>C7: consuming the same producer twice\<close>

text \<open>
  C7 as stated fails: a second call with the same id is a no-op only when the first
  one got its consumer, because the check is on \<open>consumers\<close>, which an attempt writes
  when \<open>consumerTransport.consume\<close> has resolved. Here the \<open>consume\<close> request of the
  first call for the screen producer \<open>p1\<close> is refused: \<open>consumers\<close> holds nothing after
  it, and the second call for \<open>p1\<close> is a whole new attempt, which changes the state and
  records \<open>p1\<close>. And the client's own camera \<open>p5\<close>, consumed twice with every answer
  favourable, leaves no render slot and no entry: both calls return at the first
  check.
\<close>

theorem second_consume_after_failure_is_new_attempt:
  "consumers (consumeProducer (screen_of ''p1'' ''b'' 0 False) True
       (new_client [ConsumeRequestFailed ''t8'', Consumed ''t9'' ''c1'' True])) = []
   \<and> map fst (consumers (consumeProducer (screen_of ''p1'' ''b'' 0 False) True
       (consumeProducer (screen_of ''p1'' ''b'' 0 False) True
         (new_client [ConsumeRequestFailed ''t8'', Consumed ''t9'' ''c1'' True])))) = [''p1'']
   \<and> consumeProducer (screen_of ''p1'' ''b'' 0 False) True
       (consumeProducer (screen_of ''p1'' ''b'' 0 False) True
         (new_client [ConsumeRequestFailed ''t8'', Consumed ''t9'' ''c1'' True]))
     \<noteq> consumeProducer (screen_of ''p1'' ''b'' 0 False) True
         (new_client [ConsumeRequestFailed ''t8'', Consumed ''t9'' ''c1'' True])
   \<and> render_slots ''user-me''
       (consumeProducer (camera_of ''p5'' ''me'' 0) False
         (consumeProducer (camera_of ''p5'' ''me'' 0) False
           (new_client [Consumed ''t8'' ''c1'' True, Consumed ''t9'' ''c2'' True]))) = []
   \<and> consumers
       (consumeProducer (camera_of ''p5'' ''me'' 0) False
         (consumeProducer (camera_of ''p5'' ''me'' 0) False
           (new_client [Consumed ''t8'' ''c1'' True, Consumed ''t9'' ''c2'' True]))) = []"
proof -
  let ?d = "screen_of ''p1'' ''b'' 0 False"
  let ?s = "new_client [ConsumeRequestFailed ''t8'', Consumed ''t9'' ''c1'' True]"
  let ?c = "camera_of ''p5'' ''me'' 0"
  let ?t = "new_client [Consumed ''t8'' ''c1'' True, Consumed ''t9'' ''c2'' True]"
  have a: "consumers (consumeProducer ?d True ?s) = []" by code_simp
  have b: "map fst (consumers (consumeProducer ?d True (consumeProducer ?d True ?s))) = [''p1'']"
    by code_simp
  have c: "consumeProducer ?d True (consumeProducer ?d True ?s) \<noteq> consumeProducer ?d True ?s"
    using a b by auto
  have e: "render_slots ''user-me'' (consumeProducer ?c False (consumeProducer ?c False ?t)) = []"
    by code_simp
  have f: "consumers (consumeProducer ?c False (consumeProducer ?c False ?t)) = []"
    by code_simp
  show ?thesis using a b c e f by simp
qed

text \<open>
  Two attempts for the same id that overlap. The second call is made while the first
  one awaits the answer to its \<open>consume\<close> request: \<open>consumers\<close> does not hold \<open>p1\<close> yet,
  so the second attempt goes on as well. When both have got their consumer there are
  two receive transports, the entry of \<open>consumers\<close> holds the second consumer in place
  of the first, and the one render slot shows the second consumer.
\<close>

lemma overlapping_attempts_both_proceed:
  "consume_start (screen_of ''p1'' ''b'' 0 False) True (new_client [])
   \<and> consume_start (screen_of ''p1'' ''b'' 0 False) True
        (consume_transport_created ''t1'' (new_client []))
   \<and> map fst (consumerTransports
        (consume_consumer_created (screen_of ''p1'' ''b'' 0 False) True ''t2'' ''c2'' True
          (consume_consumer_created (screen_of ''p1'' ''b'' 0 False) True ''t1'' ''c1'' True
            (consume_transport_created ''t2'' (consume_transport_created ''t1'' (new_client []))))))
       = [''t1'', ''t2'']
   \<and> map (\<lambda>x. (fst x, c_consumer (snd x))) (consumers
        (consume_consumer_created (screen_of ''p1'' ''b'' 0 False) True ''t2'' ''c2'' True
          (consume_consumer_created (screen_of ''p1'' ''b'' 0 False) True ''t1'' ''c1'' True
            (consume_transport_created ''t2'' (consume_transport_created ''t1'' (new_client []))))))
       = [(''p1'', ''c2'')]
   \<and> map video_src (render_slots ''presentation-p1''
        (consume_consumer_created (screen_of ''p1'' ''b'' 0 False) True ''t2'' ''c2'' True
          (consume_consumer_created (screen_of ''p1'' ''b'' 0 False) True ''t1'' ''c1'' True
            (consume_transport_created ''t2'' (consume_transport_created ''t1'' (new_client []))))))
       = [Some ''c2'']"
  by code_simp

text \<open>
  C7, amended. A call of \<open>consumeProducer\<close> that does not pass the two checks made at
  the call returns the state unchanged, and a call for a producer id that \<open>consumers\<close>
  holds does not pass them. \<open>consumers\<close> gets an id when an attempt gets its consumer.
  At that step, in whatever state the client is by then, if there was at most one
  render slot under the descriptor's element id and at most one entry under its
  producer id, and the peer's name is plain text, there is exactly one of each
  afterwards, and a call made then for the same producer id, whatever else its
  descriptor says, is a no-op. So when a first call that nothing interleaves with
  passes the checks and gets its consumer, a second call for the same id made after
  it is a no-op, and after the two calls there is exactly one render slot under the
  element id and exactly one entry under the id in \<open>consumers\<close>.
\<close>

theorem consume_seen_id_is_noop:
  "(\<not> consume_start d isPresentation s \<longrightarrow> consumeProducer d isPresentation s = s)
   \<and> (jm_has (consumers s) (d_id d) \<longrightarrow> \<not> consume_start d isPresentation s)
   \<and> (length (render_slots (slot_id d isPresentation) s) \<le> 1
        \<and> length (filter (\<lambda>x. fst x = d_id d) (consumers s)) \<le> 1
        \<and> plain_text (d_peerName d)
        \<and> d_id d' = d_id d \<longrightarrow>
        length (render_slots (slot_id d isPresentation)
          (consume_consumer_created d isPresentation transportId consumer attached s)) = 1
      \<and> length (filter (\<lambda>x. fst x = d_id d)
          (consumers (consume_consumer_created d isPresentation transportId consumer attached s))) = 1
      \<and> \<not> consume_start d' isPresentation'
            (consume_consumer_created d isPresentation transportId consumer attached s)
      \<and> consumeProducer d' isPresentation'
            (consume_consumer_created d isPresentation transportId consumer attached s)
          = consume_consumer_created d isPresentation transportId consumer attached s)
   \<and> (consume_start d isPresentation s
        \<and> replies s = Consumed transportId consumer attached # rest
        \<and> length (render_slots (slot_id d isPresentation) s) \<le> 1
        \<and> plain_text (d_peerName d)
        \<and> d_id d' = d_id d \<longrightarrow>
        consumeProducer d' isPresentation' (consumeProducer d isPresentation s)
           = consumeProducer d isPresentation s
      \<and> length (render_slots (slot_id d isPresentation)
            (consumeProducer d' isPresentation' (consumeProducer d isPresentation s))) = 1
      \<and> length (filter (\<lambda>x. fst x = d_id d)
            (consumers (consumeProducer d' isPresentation' (consumeProducer d isPresentation s)))) = 1)"
proof -
  let ?s1 = "consumeProducer d isPresentation s"
  let ?s2 = "consume_consumer_created d isPresentation transportId consumer attached s"
  have a: "\<not> consume_start d isPresentation s \<longrightarrow> consumeProducer d isPresentation s = s"
    by (simp add: consumeProducer_steps)
  have b: "jm_has (consumers s) (d_id d) \<longrightarrow> \<not> consume_start d isPresentation s"
    by (simp add: consume_start_def)
  have c: "length (render_slots (slot_id d isPresentation) s) \<le> 1
        \<and> length (filter (\<lambda>x. fst x = d_id d) (consumers s)) \<le> 1
        \<and> plain_text (d_peerName d)
        \<and> d_id d' = d_id d \<longrightarrow>
        length (render_slots (slot_id d isPresentation) ?s2) = 1
      \<and> length (filter (\<lambda>x. fst x = d_id d) (consumers ?s2)) = 1
      \<and> \<not> consume_start d' isPresentation' ?s2
      \<and> consumeProducer d' isPresentation' ?s2 = ?s2"
  proof
    assume h: "length (render_slots (slot_id d isPresentation) s) \<le> 1
        \<and> length (filter (\<lambda>x. fst x = d_id d) (consumers s)) \<le> 1
        \<and> plain_text (d_peerName d)
        \<and> d_id d' = d_id d"
    have slot: "length (render_slots (slot_id d isPresentation) ?s2) = 1"
      using h by (intro consume_consumer_created_slot) simp
    have entry: "length (filter (\<lambda>x. fst x = d_id d) (consumers ?s2)) = 1"
      using h by (intro consume_consumer_created_entries) simp
    have seen: "jm_has (consumers ?s2) (d_id d')"
      using h consume_consumer_created_seen [of d isPresentation transportId consumer attached s]
      by simp
    then have stop: "\<not> consume_start d' isPresentation' ?s2"
      by (simp add: consume_start_def)
    have noop: "consumeProducer d' isPresentation' ?s2 = ?s2"
      using seen by (rule consumeProducer_seen)
    show "length (render_slots (slot_id d isPresentation) ?s2) = 1
      \<and> length (filter (\<lambda>x. fst x = d_id d) (consumers ?s2)) = 1
      \<and> \<not> consume_start d' isPresentation' ?s2
      \<and> consumeProducer d' isPresentation' ?s2 = ?s2"
      using slot entry stop noop by simp
  qed
  have e: "consume_start d isPresentation s
        \<and> replies s = Consumed transportId consumer attached # rest
        \<and> length (render_slots (slot_id d isPresentation) s) \<le> 1
        \<and> plain_text (d_peerName d)
        \<and> d_id d' = d_id d \<longrightarrow>
        consumeProducer d' isPresentation' ?s1 = ?s1
      \<and> length (render_slots (slot_id d isPresentation) (consumeProducer d' isPresentation' ?s1)) = 1
      \<and> length (filter (\<lambda>x. fst x = d_id d) (consumers (consumeProducer d' isPresentation' ?s1))) = 1"
  proof
    assume h: "consume_start d isPresentation s
        \<and> replies s = Consumed transportId consumer attached # rest
        \<and> length (render_slots (slot_id d isPresentation) s) \<le> 1
        \<and> plain_text (d_peerName d)
        \<and> d_id d' = d_id d"
    have rec: "filter (\<lambda>x. fst x = d_id d) (consumers ?s1)
           = [(d_id d, \<lparr>c_consumer = consumer, c_transport = transportId, c_socketId = d_socketId d,
                        c_kind = d_kind d, c_isPresentation = isPresentation\<rparr>)]"
      using h by (intro consumeProducer_records) (auto simp: consume_start_def)
    then have "jm_has (consumers ?s1) (d_id d')"
      using h by (auto simp: jm_has_iff_filter)
    then have noop: "consumeProducer d' isPresentation' ?s1 = ?s1" by (rule consumeProducer_seen)
    have slot: "length (render_slots (slot_id d isPresentation) ?s1) = 1"
      using h by (intro consumeProducer_slot) (auto simp: consume_start_def)
    show "consumeProducer d' isPresentation' ?s1 = ?s1
      \<and> length (render_slots (slot_id d isPresentation) (consumeProducer d' isPresentation' ?s1)) = 1
      \<and> length (filter (\<lambda>x. fst x = d_id d) (consumers (consumeProducer d' isPresentation' ?s1))) = 1"
      using noop slot rec by simp
  qed
  show ?thesis using a b c e by blast
qed

text \<open>
  The screen producer \<open>p1\<close> of \<open>b\<close> is consumed twice by a client that has rendered
  nothing yet, the second call after the first; and an attempt for \<open>p1\<close> gets its
  consumer \<open>c2\<close> in a client where another attempt for \<open>p1\<close> has got its consumer
  \<open>c1\<close> before.
\<close>

theorem consume_seen_id_is_noop_witness:
  "consume_start (screen_of ''p1'' ''b'' 0 False) True (new_client [Consumed ''t9'' ''c1'' True])
   \<and> plain_text (d_peerName (screen_of ''p1'' ''b'' 0 False))
   \<and> consumeProducer (screen_of ''p1'' ''b'' 0 False) True
      (consumeProducer (screen_of ''p1'' ''b'' 0 False) True (new_client [Consumed ''t9'' ''c1'' True]))
     = consumeProducer (screen_of ''p1'' ''b'' 0 False) True (new_client [Consumed ''t9'' ''c1'' True])
   \<and> length (render_slots ''presentation-p1''
        (consumeProducer (screen_of ''p1'' ''b'' 0 False) True
          (consumeProducer (screen_of ''p1'' ''b'' 0 False) True (new_client [Consumed ''t9'' ''c1'' True]))))
     = 1
   \<and> length (filter (\<lambda>x. fst x = ''p1'')
        (consumers (consumeProducer (screen_of ''p1'' ''b'' 0 False) True
          (consumeProducer (screen_of ''p1'' ''b'' 0 False) True (new_client [Consumed ''t9'' ''c1'' True])))))
     = 1
   \<and> map fst (consumers (consumeProducer (screen_of ''p1'' ''b'' 0 False) True
                (new_client [Consumed ''t9'' ''c1'' True]))) = [''p1'']
   \<and> length (render_slots ''presentation-p1''
        (consume_consumer_created (screen_of ''p1'' ''b'' 0 False) True ''t2'' ''c2'' True
          (consume_consumer_created (screen_of ''p1'' ''b'' 0 False) True ''t1'' ''c1'' True
            (consume_transport_created ''t2'' (consume_transport_created ''t1'' (new_client []))))))
     = 1
   \<and> length (filter (\<lambda>x. fst x = ''p1'')
        (consumers
          (consume_consumer_created (screen_of ''p1'' ''b'' 0 False) True ''t2'' ''c2'' True
            (consume_consumer_created (screen_of ''p1'' ''b'' 0 False) True ''t1'' ''c1'' True
              (consume_transport_created ''t2'' (consume_transport_created ''t1'' (new_client [])))))))
     = 1
   \<and> consumeProducer (screen_of ''p1'' ''b'' 0 True) True
        (consume_consumer_created (screen_of ''p1'' ''b'' 0 False) True ''t2'' ''c2'' True
          (consume_consumer_created (screen_of ''p1'' ''b'' 0 False) True ''t1'' ''c1'' True
            (consume_transport_created ''t2'' (consume_transport_created ''t1'' (new_client [])))))
     = consume_consumer_created (screen_of ''p1'' ''b'' 0 False) True ''t2'' ''c2'' True
          (consume_consumer_created (screen_of ''p1'' ''b'' 0 False) True ''t1'' ''c1'' True
            (consume_transport_created ''t2'' (consume_transport_created ''t1'' (new_client []))))"
proof -
  let ?d = "screen_of ''p1'' ''b'' 0 False"
  let ?d' = "screen_of ''p1'' ''b'' 0 True"
  let ?s = "new_client [Consumed ''t9'' ''c1'' True]"
  let ?u = "consume_consumer_created ?d True ''t1'' ''c1'' True
              (consume_transport_created ''t2'' (consume_transport_created ''t1'' (new_client [])))"
  have i: "slot_id ?d True = ''presentation-p1''" "d_id ?d = ''p1''" "d_id ?d' = ''p1''"
    by (simp_all add: slot_id_def screen_of_def)
  have p: "plain_text (d_peerName ?d)"
    by (simp add: plain_text_def screen_of_def)
  have st: "consume_start ?d True ?s"
    by (simp add: consume_start_def new_client_def screen_of_def)
  have sl: "render_slots (slot_id ?d True) ?s = []"
    unfolding i by code_simp
  have h: "consume_start ?d True ?s
        \<and> replies ?s = Consumed ''t9'' ''c1'' True # []
        \<and> length (render_slots (slot_id ?d True) ?s) \<le> 1
        \<and> plain_text (d_peerName ?d)
        \<and> d_id ?d = d_id ?d"
    using p st sl by (simp add: new_client_def)
  have j: "map fst (consumers (consumeProducer ?d True ?s)) = [''p1'']" by code_simp
  have ul: "length (render_slots ''presentation-p1'' ?u) = 1" by code_simp
  have ue: "length (filter (\<lambda>x. fst x = ''p1'') (consumers ?u)) = 1" by code_simp
  have g: "length (render_slots (slot_id ?d True) ?u) \<le> 1
        \<and> length (filter (\<lambda>x. fst x = d_id ?d) (consumers ?u)) \<le> 1
        \<and> plain_text (d_peerName ?d)
        \<and> d_id ?d' = d_id ?d"
    using p ul ue unfolding i by simp
  from consume_seen_id_is_noop
    [where s = ?s and d = ?d and isPresentation = True and d' = ?d and isPresentation' = True
       and transportId = "''t9''" and consumer = "''c1''" and attached = True and rest = "[]"] h
  have two: "consumeProducer ?d True (consumeProducer ?d True ?s) = consumeProducer ?d True ?s
      \<and> length (render_slots (slot_id ?d True) (consumeProducer ?d True (consumeProducer ?d True ?s))) = 1
      \<and> length (filter (\<lambda>x. fst x = d_id ?d)
            (consumers (consumeProducer ?d True (consumeProducer ?d True ?s)))) = 1"
    by blast
  from consume_seen_id_is_noop
    [where s = ?u and d = ?d and isPresentation = True and d' = ?d' and isPresentation' = True
       and transportId = "''t2''" and consumer = "''c2''" and attached = True] g
  have later: "length (render_slots (slot_id ?d True)
          (consume_consumer_created ?d True ''t2'' ''c2'' True ?u)) = 1
      \<and> length (filter (\<lambda>x. fst x = d_id ?d)
          (consumers (consume_consumer_created ?d True ''t2'' ''c2'' True ?u))) = 1
      \<and> consumeProducer ?d' True (consume_consumer_created ?d True ''t2'' ''c2'' True ?u)
          = consume_consumer_created ?d True ''t2'' ''c2'' True ?u"
    by blast
  show ?thesis using st p two j later unfolding i by blast
qed

subsection \<open>C3: a consume attempt that fails\<close>




subsection \<open>C4: selecting the source again\<close>

text \<open>
  C4 as stated fails: with \<open>user-b\<close> selected as source, selecting \<open>user-b\<close> again
  through \<open>selectForSwap\<close> makes it the target, \<open>performSwap\<close> finds source and target
  equal and calls \<open>cancelSwap\<close>: the source is cleared and swap mode is off.
\<close>

theorem reselecting_source_leaves_swap_mode:
  "swapSource source_selected = Some (''user-b'', ''scr1'')
   \<and> isSwapMode source_selected
   \<and> swapSource (selectForSwap ''user-b'' ''scr1'' source_selected) = None
   \<and> \<not> isSwapMode (selectForSwap ''user-b'' ''scr1'' source_selected)"
  by code_simp

text \<open>
  C4, amended. When a source \<open>A\<close> is selected and \<open>A\<close> is selected again through
  \<open>selectForSwap\<close>, the swap is rejected: no render slot moves, and the engine returns
  to idle (source and target cleared, swap mode off, highlights removed). Only a click
  in the grid on the wrapper highlighted as source, with the switcher closed, is
  ignored, which leaves the engine in source-selected with \<open>A\<close> unchanged.
\<close>

theorem reselecting_source_returns_to_idle:
  "(swapSource s = Some (a, lbl) \<longrightarrow>
      selectForSwap a lbl' s = cancelSwap (highlightSwapTarget lbl' (s\<lparr>swapTarget := Some (a, lbl')\<rparr>))
    \<and> swapSource (selectForSwap a lbl' s) = None
    \<and> swapTarget (selectForSwap a lbl' s) = None
    \<and> \<not> isSwapMode (selectForSwap a lbl' s)
    \<and> slot_order (selectForSwap a lbl' s) = slot_order s
    \<and> list_all (\<lambda>w. \<not> swap_source w \<and> \<not> swap_target w) (all_wrappers (selectForSwap a lbl' s)))
   \<and> (isSwapMode s \<and> wrapper_at clicked s = Some w \<and> swap_source w \<and> \<not> videoSwitcherShown s \<longrightarrow>
        grid_click clicked s = s)"
proof -
  have sel: "swapSource s = Some (a, lbl) \<Longrightarrow>
      selectForSwap a lbl' s = cancelSwap (highlightSwapTarget lbl' (s\<lparr>swapTarget := Some (a, lbl')\<rparr>))"
    by (simp add: selectForSwap_def performSwap_def highlightSwapTarget_def split: option.splits)
  have click: "isSwapMode s \<and> wrapper_at clicked s = Some w \<and> swap_source w \<and> \<not> videoSwitcherShown s \<longrightarrow>
        grid_click clicked s = s"
    by (simp add: grid_click_def document_click_def)
  show ?thesis
    using sel click cancelSwap_idle cancelSwap_no_highlight
    by simp
qed

theorem reselecting_source_returns_to_idle_witness:
  "swapSource source_selected = Some (''user-b'', ''scr1'')
   \<and> swapSource (selectForSwap ''user-b'' ''scr1'' source_selected) = None
   \<and> \<not> isSwapMode (selectForSwap ''user-b'' ''scr1'' source_selected)
   \<and> slot_order (selectForSwap ''user-b'' ''scr1'' source_selected) = ([[], ''user-b''], None)
   \<and> isSwapMode source_selected
   \<and> map_option swap_source (wrapper_at (InPeers 1) source_selected) = Some True
   \<and> \<not> videoSwitcherShown source_selected
   \<and> grid_click (InPeers 1) source_selected = source_selected"
proof -
  have h: "swapSource source_selected = Some (''user-b'', ''scr1'')" "isSwapMode source_selected"
    "map_option swap_source (wrapper_at (InPeers 1) source_selected) = Some True"
    "slot_order source_selected = ([[], ''user-b''], None)"
    "\<not> videoSwitcherShown source_selected"
    by code_simp+
  from h(3) obtain w where w: "wrapper_at (InPeers 1) source_selected = Some w" "swap_source w"
    by auto
  from reselecting_source_returns_to_idle [of source_selected "''user-b''" "''scr1''" "''scr1''" "InPeers 1" w]
    h(1,2,5) w
  have "swapSource (selectForSwap ''user-b'' ''scr1'' source_selected) = None
      \<and> \<not> isSwapMode (selectForSwap ''user-b'' ''scr1'' source_selected)
      \<and> slot_order (selectForSwap ''user-b'' ''scr1'' source_selected) = slot_order source_selected
      \<and> grid_click (InPeers 1) source_selected = source_selected"
    by blast
  then show ?thesis using h by simp
qed

subsection \<open>C5: who learns of a new producer\<close>

text \<open>
  C5. Every success of \<open>POST /produce\<close> is a success of \<open>produce_continue\<close>
  (\<open>produce_succeeds_in_continue\<close>). When it succeeds for a request with source
  \<open>screen\<close>, the \<open>new-presentation\<close> event for the new producer reaches every
  connected socket, the owner included; the owner's client, receiving a presentation
  of its own socket id, consumes it (entry in \<open>consumers\<close> and \<open>presentations\<close>,
  render slot). When it succeeds for any other source, with the socket id of a
  participant, the \<open>new-producer\<close> event reaches every connected socket but the
  owner, who receives nothing; and a client handed a camera or microphone producer
  of its own socket id returns without consuming it.
\<close>

theorem creation_broadcast_and_self_consumption:
  "(produce_continue req producerId s = (Inr producerId, emitted, s') \<and> r_source req = ''screen'' \<longrightarrow>
      (\<exists>d. d_id d = producerId \<and> d_socketId d = r_socketId req
           \<and> (\<forall>c \<in> set connected. NewPresentation d \<in> set (delivered emitted connected c))))
   \<and> (produce_continue req producerId s = (Inr producerId, emitted, s') \<and> r_source req \<noteq> ''screen''
        \<and> r_socketId req \<noteq> [] \<longrightarrow>
      (\<exists>d. d_id d = producerId \<and> d_socketId d = r_socketId req
           \<and> (\<forall>c \<in> set connected. c \<noteq> r_socketId req \<longrightarrow>
                 NewProducer d \<in> set (delivered emitted connected c)))
      \<and> delivered emitted connected (r_socketId req) = [])
   \<and> (d_socketId own = my_socket_id cs \<longrightarrow> consumeUserProducer own cs = cs)
   \<and> (d_socketId own = my_socket_id cs \<and> \<not> jm_has (consumers cs) (d_id own)
        \<and> replies cs = Consumed transportId consumer attached # rest \<longrightarrow>
        jm_has (consumers (consumePresentation own cs)) (d_id own)
      \<and> jm_has (presentations (consumePresentation own cs)) (d_id own)
      \<and> render_slots (''presentation-'' @ d_id own) (consumePresentation own cs) \<noteq> [])"
proof -
  have a: "produce_continue req producerId s = (Inr producerId, emitted, s') \<and> r_source req = ''screen'' \<longrightarrow>
      (\<exists>d. d_id d = producerId \<and> d_socketId d = r_socketId req
           \<and> (\<forall>c \<in> set connected. NewPresentation d \<in> set (delivered emitted connected c)))"
  proof
    assume h: "produce_continue req producerId s = (Inr producerId, emitted, s') \<and> r_source req = ''screen''"
    then obtain d st where e: "emitted = [(ToAll, NewPresentation d), st]"
      "d_id d = producerId" "d_socketId d = r_socketId req"
      using produce_screen_emits [of req producerId s emitted s'] by blast
    have "\<forall>c \<in> set connected. NewPresentation d \<in> set (delivered emitted connected c)"
      using e(1) by (simp add: delivered_def)
    with e show "\<exists>d. d_id d = producerId \<and> d_socketId d = r_socketId req
           \<and> (\<forall>c \<in> set connected. NewPresentation d \<in> set (delivered emitted connected c))"
      by blast
  qed
  have b: "produce_continue req producerId s = (Inr producerId, emitted, s') \<and> r_source req \<noteq> ''screen''
        \<and> r_socketId req \<noteq> [] \<longrightarrow>
      (\<exists>d. d_id d = producerId \<and> d_socketId d = r_socketId req
           \<and> (\<forall>c \<in> set connected. c \<noteq> r_socketId req \<longrightarrow>
                 NewProducer d \<in> set (delivered emitted connected c)))
      \<and> delivered emitted connected (r_socketId req) = []"
  proof
    assume h: "produce_continue req producerId s = (Inr producerId, emitted, s') \<and> r_source req \<noteq> ''screen''
        \<and> r_socketId req \<noteq> []"
    then obtain d where e: "emitted = [(ToAllExcept (r_socketId req), NewProducer d)]"
      "d_id d = producerId" "d_socketId d = r_socketId req"
      using produce_camera_emits [of req producerId s emitted s'] by blast
    have 1: "\<forall>c \<in> set connected. c \<noteq> r_socketId req \<longrightarrow>
                 NewProducer d \<in> set (delivered emitted connected c)"
      using e(1) by (simp add: delivered_def)
    have 2: "delivered emitted connected (r_socketId req) = []"
      using e(1) by (simp add: delivered_def)
    from e 1 2 show "(\<exists>d. d_id d = producerId \<and> d_socketId d = r_socketId req
           \<and> (\<forall>c \<in> set connected. c \<noteq> r_socketId req \<longrightarrow>
                 NewProducer d \<in> set (delivered emitted connected c)))
      \<and> delivered emitted connected (r_socketId req) = []"
      by blast
  qed
  have c: "d_socketId own = my_socket_id cs \<longrightarrow> consumeUserProducer own cs = cs"
    by (simp add: consumeUserProducer_def consumeProducer_def)
  have d: "d_socketId own = my_socket_id cs \<and> \<not> jm_has (consumers cs) (d_id own)
        \<and> replies cs = Consumed transportId consumer attached # rest \<longrightarrow>
        jm_has (consumers (consumePresentation own cs)) (d_id own)
      \<and> jm_has (presentations (consumePresentation own cs)) (d_id own)
      \<and> render_slots (''presentation-'' @ d_id own) (consumePresentation own cs) \<noteq> []"
  proof
    assume h: "d_socketId own = my_socket_id cs \<and> \<not> jm_has (consumers cs) (d_id own)
        \<and> replies cs = Consumed transportId consumer attached # rest"
    have slot: "render_slots (slot_id own True) (consumeProducer own True cs) \<noteq> []"
      using h by (intro consumeProducer_has_slot) auto
    have "jm_has (consumers (consumeProducer own True cs)) (d_id own)"
      "jm_has (presentations (consumeProducer own True cs)) (d_id own)"
      using h by (simp_all add: consumeProducer_def Let_def)
    with slot show "jm_has (consumers (consumePresentation own cs)) (d_id own)
      \<and> jm_has (presentations (consumePresentation own cs)) (d_id own)
      \<and> render_slots (''presentation-'' @ d_id own) (consumePresentation own cs) \<noteq> []"
      by (simp add: consumePresentation_def slot_id_def del: append.simps)
  qed
  show ?thesis using a b c d by blast
qed

text \<open>
  In \<open>room_ab\<close>, \<open>a\<close> registers a screen producer and then a camera producer; \<open>a\<close>
  and \<open>b\<close> are connected. The client \<open>me\<close> is handed its own camera and its own
  screen producer.
\<close>

theorem creation_broadcast_and_self_consumption_witness:
  "fst (produce_continue (screen_request ''a'') ''p1'' room_ab) = Inr ''p1''
   \<and> (\<exists>d. d_id d = ''p1'' \<and> d_socketId d = ''a''
          \<and> NewPresentation d
               \<in> set (delivered (fst (snd (produce_continue (screen_request ''a'') ''p1'' room_ab)))
                       [''a'', ''b''] ''a'')
          \<and> NewPresentation d
               \<in> set (delivered (fst (snd (produce_continue (screen_request ''a'') ''p1'' room_ab)))
                       [''a'', ''b''] ''b''))
   \<and> fst (produce_continue (camera_request ''a'') ''p5'' room_ab) = Inr ''p5''
   \<and> (\<exists>d. d_id d = ''p5'' \<and> d_socketId d = ''a''
          \<and> NewProducer d
               \<in> set (delivered (fst (snd (produce_continue (camera_request ''a'') ''p5'' room_ab)))
                       [''a'', ''b''] ''b''))
   \<and> delivered (fst (snd (produce_continue (camera_request ''a'') ''p5'' room_ab))) [''a'', ''b''] ''a'' = []
   \<and> consumeUserProducer (camera_of ''p5'' ''me'' 0) (new_client [Consumed ''t9'' ''c1'' True])
       = new_client [Consumed ''t9'' ''c1'' True]
   \<and> jm_has (consumers (consumePresentation (screen_of ''p1'' ''me'' 0 False)
                (new_client [Consumed ''t9'' ''c1'' True]))) ''p1''
   \<and> render_slots ''presentation-p1'' (consumePresentation (screen_of ''p1'' ''me'' 0 False)
                (new_client [Consumed ''t9'' ''c1'' True])) \<noteq> []"
proof -
  let ?ps = "produce_continue (screen_request ''a'') ''p1'' room_ab"
  let ?pc = "produce_continue (camera_request ''a'') ''p5'' room_ab"
  let ?cl = "new_client [Consumed ''t9'' ''c1'' True]"
  have fs: "fst ?ps = Inr ''p1''" and fc: "fst ?pc = Inr ''p5''" by code_simp+
  have es: "?ps = (Inr ''p1'', fst (snd ?ps), snd (snd ?ps))
            \<and> r_source (screen_request ''a'') = ''screen''"
    using fs by (metis prod.collapse screen_request_def produce_request.select_convs(4))
  have ec: "?pc = (Inr ''p5'', fst (snd ?pc), snd (snd ?pc))
            \<and> r_source (camera_request ''a'') \<noteq> ''screen'' \<and> r_socketId (camera_request ''a'') \<noteq> []"
    using fc by (simp add: camera_request_def) (metis prod.collapse)
  have rs: "r_socketId (screen_request ''a'') = ''a''" "r_socketId (camera_request ''a'') = ''a''"
    by (simp_all add: screen_request_def camera_request_def)
  have oc: "d_socketId (camera_of ''p5'' ''me'' 0) = my_socket_id ?cl"
    by (simp add: camera_of_def new_client_def)
  have os: "d_socketId (screen_of ''p1'' ''me'' 0 False) = my_socket_id ?cl
            \<and> \<not> jm_has (consumers ?cl) (d_id (screen_of ''p1'' ''me'' 0 False))
            \<and> replies ?cl = Consumed ''t9'' ''c1'' True # []"
    by (simp add: screen_of_def new_client_def)
  have i: "d_id (screen_of ''p1'' ''me'' 0 False) = ''p1''" by (simp add: screen_of_def)
  from creation_broadcast_and_self_consumption
    [where req = "screen_request ''a''" and s = room_ab
       and producerId = "''p1''" and emitted = "fst (snd ?ps)" and s' = "snd (snd ?ps)"
       and connected = "[''a'', ''b'']" and own = "camera_of ''p5'' ''me'' 0" and cs = ?cl] es oc
  have 1: "(\<exists>d. d_id d = ''p1'' \<and> d_socketId d = r_socketId (screen_request ''a'')
           \<and> (\<forall>c \<in> set [''a'', ''b'']. NewPresentation d \<in> set (delivered (fst (snd ?ps)) [''a'', ''b''] c)))"
    and 2: "consumeUserProducer (camera_of ''p5'' ''me'' 0) ?cl = ?cl"
    by blast+
  from creation_broadcast_and_self_consumption
    [where req = "camera_request ''a''" and s = room_ab
       and producerId = "''p5''" and emitted = "fst (snd ?pc)" and s' = "snd (snd ?pc)"
       and connected = "[''a'', ''b'']" and own = "screen_of ''p1'' ''me'' 0 False" and cs = ?cl
       and transportId = "''t9''" and consumer = "''c1''" and attached = True and rest = "[]"] ec os
  have 3: "(\<exists>d. d_id d = ''p5'' \<and> d_socketId d = r_socketId (camera_request ''a'')
           \<and> (\<forall>c \<in> set [''a'', ''b'']. c \<noteq> r_socketId (camera_request ''a'') \<longrightarrow>
                 NewProducer d \<in> set (delivered (fst (snd ?pc)) [''a'', ''b''] c)))"
    and 4: "delivered (fst (snd ?pc)) [''a'', ''b''] (r_socketId (camera_request ''a'')) = []"
    and 5: "jm_has (consumers (consumePresentation (screen_of ''p1'' ''me'' 0 False) ?cl))
              (d_id (screen_of ''p1'' ''me'' 0 False))"
    and 6: "render_slots (''presentation-'' @ d_id (screen_of ''p1'' ''me'' 0 False))
              (consumePresentation (screen_of ''p1'' ''me'' 0 False) ?cl) \<noteq> []"
    by blast+
  from 1 have p1: "\<exists>d. d_id d = ''p1'' \<and> d_socketId d = ''a''
          \<and> NewPresentation d \<in> set (delivered (fst (snd ?ps)) [''a'', ''b''] ''a'')
          \<and> NewPresentation d \<in> set (delivered (fst (snd ?ps)) [''a'', ''b''] ''b'')"
    unfolding rs by auto
  from 3 have p3: "\<exists>d. d_id d = ''p5'' \<and> d_socketId d = ''a''
          \<and> NewProducer d \<in> set (delivered (fst (snd ?pc)) [''a'', ''b''] ''b'')"
    unfolding rs by auto
  from 6 have p6: "render_slots ''presentation-p1''
              (consumePresentation (screen_of ''p1'' ''me'' 0 False) ?cl) \<noteq> []"
    unfolding i by simp
  show ?thesis using fs fc p1 2 p3 4 5 p6 unfolding rs i by blast
qed

end
